theory Spec2Isabelle
  imports Complex_Main "HOL-Library.Monad_Syntax"
begin

section \<open>Data model\<close>

text \<open>
  The notebook works on pandas tables. The rows of a table are modelled as a list, in
  row order, and a row as a record of the columns the modelled cells read. A cell of a
  string column is \<open>None\<close> where pandas holds a missing value (NaN). A Python float is
  idealised as a real number, and a float cell that holds NaN is \<open>None\<close>.
\<close>

record trip =
  person_dim_id :: int
  daynum :: int
  origin_purpose :: "string option"
  dest_purpose :: "string option"
  depart_time_string :: "string option"
  arrival_time_string :: "string option"
  travel_time_calc :: "real option"
  trip_path_distance :: "real option"
  mode_simple :: "string option"
  age :: "string option"

text \<open>
  The trip table the cleaning cells work on: its rows, and whether it has the column
  \<open>travel_time_calc\<close>. The raw table read from the file does not have it; the cell
  of a row in a column the table does not have is \<open>None\<close>.
\<close>

record 'r table =
  has_travel_time_calc :: bool
  table_rows :: "'r list"

text \<open>A row of \<open>person_day_df\<close>: the two key columns of the group-by.\<close>

record person_day =
  pd_person_dim_id :: int
  pd_daynum :: int

text \<open>
  A row of \<open>trips_od\<close>, the left merge of the cleaned trips with the location table: the
  columns of a trip and the four coordinates, missing where the trip has no location.
\<close>

record trip_od = trip +
  origin_lat :: "real option"
  origin_lng :: "real option"
  dest_lat :: "real option"
  dest_lng :: "real option"

text \<open>A row of \<open>persons\<close>.\<close>

record person =
  person_id :: int
  gender :: "string option"

section \<open>Step 2: cleaning\<close>

subsection \<open>\<open>datetime.strptime\<close> with the format of the notebook\<close>

text \<open>
  \<open>datetime.strptime(s, "Date: %Y-%m-%d %H:%M:%S.%f")\<close> belongs to the Python standard
  library. It is modelled for strings of the characters up to U+00FF, which are the
  values of a HOL character, after the regular expression CPython builds from the format: the literal text is matched ignoring case, each blank of the format
  stands for one or more white-space characters, every number is a run of digits that
  the following literal ends, the whole string must be consumed, and the date and time
  must exist. Every failure is a \<open>ValueError\<close> in Python and \<open>None\<close> here.
\<close>

record datetime =
  year :: nat
  month :: nat
  day :: nat
  hour :: nat
  minute :: nat
  second :: nat
  microsecond :: nat

definition is_digit :: "char \<Rightarrow> bool" where
  "is_digit c \<longleftrightarrow> c \<in> set ''0123456789''"

definition digit_val :: "char \<Rightarrow> nat" where
  "digit_val c = of_char c - 48"

definition nat_of_digits :: "string \<Rightarrow> nat" where
  "nat_of_digits ds = foldl (\<lambda>n c. 10 * n + digit_val c) 0 ds"

definition is_space :: "char \<Rightarrow> bool" where
  "is_space c \<longleftrightarrow>
     (let n = (of_char c :: nat)
      in (9 \<le> n \<and> n \<le> 13) \<or> (28 \<le> n \<and> n \<le> 32) \<or> n = 133 \<or> n = 160)"

definition lower :: "char \<Rightarrow> char" where
  "lower c =
     (case map_of (zip ''ABCDEFGHIJKLMNOPQRSTUVWXYZ'' ''abcdefghijklmnopqrstuvwxyz'') c of
        None \<Rightarrow> c | Some l \<Rightarrow> l)"

text \<open>The literal \<open>Date:\<close> of the format, matched ignoring case.\<close>

definition literal_Date :: "string \<Rightarrow> string option" where
  "literal_Date s = (if map lower (take 5 s) = ''date:'' then Some (drop 5 s) else None)"

definition literal :: "char \<Rightarrow> string \<Rightarrow> string option" where
  "literal c s = (case s of [] \<Rightarrow> None | x # r \<Rightarrow> if x = c then Some r else None)"

text \<open>
  \<open>\s+\<close>: one or more white-space characters. Below U+0100 these are the characters
  9 to 13 and 28 to 32, U+0085 and U+00A0.
\<close>

definition spaces :: "string \<Rightarrow> string option" where
  "spaces s = (case s of [] \<Rightarrow> None | x # r \<Rightarrow> if is_space x then Some (dropWhile is_space r) else None)"

text \<open>
  A numeric directive: the run of digits at the head of the input, of \<open>lmin\<close> to \<open>lmax\<close>
  digits and with a value from \<open>lo\<close> to \<open>hi\<close>. It returns the value, the number of
  digits and the rest of the input.
\<close>

definition number :: "nat \<Rightarrow> nat \<Rightarrow> nat \<Rightarrow> nat \<Rightarrow> string \<Rightarrow> (nat \<times> nat \<times> string) option" where
  "number lmin lmax lo hi s =
     (let ds = takeWhile is_digit s; v = nat_of_digits ds
      in if lmin \<le> length ds \<and> length ds \<le> lmax \<and> lo \<le> v \<and> v \<le> hi
         then Some (v, length ds, dropWhile is_digit s) else None)"

text \<open>\<open>%d\<close> also accepts a blank followed by one digit from 1 to 9.\<close>

definition directive_d :: "string \<Rightarrow> (nat \<times> nat \<times> string) option" where
  "directive_d s = (case s of CHR '' '' # r \<Rightarrow> number 1 1 1 9 r | _ \<Rightarrow> number 1 2 1 31 s)"

definition is_leap :: "nat \<Rightarrow> bool" where
  "is_leap y \<longleftrightarrow> y mod 4 = 0 \<and> (y mod 100 \<noteq> 0 \<or> y mod 400 = 0)"

definition days_in_month :: "nat \<Rightarrow> nat \<Rightarrow> nat" where
  "days_in_month y m =
     (if m = 2 then (if is_leap y then 29 else 28)
      else if m = 4 \<or> m = 6 \<or> m = 9 \<or> m = 11 then 30 else 31)"

text \<open>What the constructors of \<open>date\<close> and \<open>datetime\<close> check.\<close>

definition valid_datetime :: "datetime \<Rightarrow> bool" where
  "valid_datetime dt \<longleftrightarrow>
     1 \<le> year dt \<and> year dt \<le> 9999 \<and> 1 \<le> month dt \<and> month dt \<le> 12 \<and>
     1 \<le> day dt \<and> day dt \<le> days_in_month (year dt) (month dt) \<and>
     hour dt \<le> 23 \<and> minute dt \<le> 59 \<and> second dt \<le> 59 \<and> microsecond dt \<le> 999999"

definition strptime :: "string \<Rightarrow> datetime option" where
  "strptime s0 = do {
     s1 \<leftarrow> literal_Date s0;
     s2 \<leftarrow> spaces s1;
     (Y, _, s3) \<leftarrow> number 4 4 0 9999 s2;
     s4 \<leftarrow> literal CHR ''-'' s3;
     (m, _, s5) \<leftarrow> number 1 2 1 12 s4;
     s6 \<leftarrow> literal CHR ''-'' s5;
     (d, _, s7) \<leftarrow> directive_d s6;
     s8 \<leftarrow> spaces s7;
     (H, _, s9) \<leftarrow> number 1 2 0 23 s8;
     s10 \<leftarrow> literal CHR '':'' s9;
     (M, _, s11) \<leftarrow> number 1 2 0 59 s10;
     s12 \<leftarrow> literal CHR '':'' s11;
     (S, _, s13) \<leftarrow> number 1 2 0 61 s12;
     s14 \<leftarrow> literal CHR ''.'' s13;
     (f, len, s15) \<leftarrow> number 1 6 0 999999 s14;
     let dt = \<lparr>year = Y, month = m, day = d, hour = H, minute = M, second = S,
                microsecond = f * 10 ^ (6 - len)\<rparr>;
     if s15 = [] \<and> valid_datetime dt then Some dt else None
   }"

subsection \<open>Subtracting two \<open>datetime\<close> objects\<close>

text \<open>
  \<open>date.toordinal()\<close>: the number of the day in the proleptic Gregorian calendar, day 1
  being 1 January of year 1.
\<close>

definition days_before_year :: "nat \<Rightarrow> int" where
  "days_before_year y = (let y1 = int y - 1 in y1 * 365 + y1 div 4 - y1 div 100 + y1 div 400)"

definition days_before_month :: "nat \<Rightarrow> nat \<Rightarrow> int" where
  "days_before_month y m = int (sum_list (map (days_in_month y) [1..<m]))"

definition toordinal :: "datetime \<Rightarrow> int" where
  "toordinal dt = days_before_year (year dt) + days_before_month (year dt) (month dt) + int (day dt)"

text \<open>
  A \<open>timedelta\<close> is a whole number of microseconds. \<open>datetime.__sub__\<close> takes the
  differences of the day numbers, of the seconds of the day and of the microseconds.
\<close>

type_synonym timedelta = int

definition datetime_sub :: "datetime \<Rightarrow> datetime \<Rightarrow> timedelta" where
  "datetime_sub a b =
     (let days1 = toordinal a; days2 = toordinal b;
          secs1 = int (second a) + int (minute a) * 60 + int (hour a) * 3600;
          secs2 = int (second b) + int (minute b) * 60 + int (hour b) * 3600
      in ((days1 - days2) * 86400 + (secs1 - secs2)) * 1000000
           + (int (microsecond a) - int (microsecond b)))"

definition total_seconds :: "timedelta \<Rightarrow> real" where
  "total_seconds td = real_of_int td / 1000000"

subsection \<open>The cleaning cells\<close>

datatype error = TypeError | ValueError | ZeroDivisionError

text \<open>
  \<open>travel_time_manual(row)\<close>. Slicing a missing cell (a float NaN) raises
  \<open>TypeError\<close>; \<open>s[:-1]\<close> drops the last character of a string and leaves the empty
  string empty.
\<close>

definition travel_time_manual :: "'a trip_scheme \<Rightarrow> error + real" where
  "travel_time_manual row =
     (case arrival_time_string row of
        None \<Rightarrow> Inl TypeError
      | Some arr \<Rightarrow>
         (case depart_time_string row of
            None \<Rightarrow> Inl TypeError
          | Some dep \<Rightarrow>
             (let date_str_arr = butlast arr; date_str_dep = butlast dep
              in (case strptime date_str_arr of
                    None \<Rightarrow> Inl ValueError
                  | Some dt_object_arr \<Rightarrow>
                     (case strptime date_str_dep of
                        None \<Rightarrow> Inl ValueError
                      | Some dt_object_dep \<Rightarrow>
                         (let delta_time = abs (datetime_sub dt_object_arr dt_object_dep);
                              travel_time_mins = total_seconds delta_time / 60
                          in Inr travel_time_mins))))))"

text \<open>\<open>trips.dropna(subset=['depart_time_string', 'arrival_time_string'])\<close>, with the
  default \<open>how='any'\<close>.\<close>

definition dropna :: "'a trip_scheme list \<Rightarrow> 'a trip_scheme list" where
  "dropna trips =
     filter (\<lambda>row. \<not> (depart_time_string row = None \<or> arrival_time_string row = None)) trips"

text \<open>
  \<open>trips_clean.apply(travel_time_manual, axis=1)\<close>. On a frame with rows the function
  is called on the rows in order, the first exception ends the call, and the result is
  the Series of the values. On a frame without rows pandas makes no call that counts and
  returns a copy of the frame.
\<close>

datatype applied = Series "real list" | Frame

fun apply_rows :: "'a trip_scheme list \<Rightarrow> error + real list" where
  "apply_rows [] = Inr []"
| "apply_rows (row # rows) =
     (case travel_time_manual row of Inl e \<Rightarrow> Inl e
      | Inr t \<Rightarrow> (case apply_rows rows of Inl e \<Rightarrow> Inl e
                  | Inr ts \<Rightarrow> Inr (t # ts)))"

definition apply_travel_time_manual :: "'a trip_scheme list \<Rightarrow> error + applied" where
  "apply_travel_time_manual trips_clean =
     (if trips_clean = [] then Inr Frame
      else (case apply_rows trips_clean of Inl e \<Rightarrow> Inl e | Inr ts \<Rightarrow> Inr (Series ts)))"

text \<open>
  \<open>trips_clean.loc[:, "travel_time_calc"] = ...\<close>. A Series sets the column, which the
  table has from then on. The frame that \<open>apply\<close> returns for a table without rows
  cannot be set as a new column, and the assignment raises \<open>ValueError\<close>; where the
  table has the column already, the assignment leaves the table without rows as it is.
\<close>

definition set_travel_time_calc :: "'a trip_scheme table \<Rightarrow> error + 'a trip_scheme table" where
  "set_travel_time_calc trips_clean =
     (case apply_travel_time_manual (table_rows trips_clean) of
        Inl e \<Rightarrow> Inl e
      | Inr Frame \<Rightarrow>
          if has_travel_time_calc trips_clean then Inr trips_clean else Inl ValueError
      | Inr (Series ts) \<Rightarrow>
          Inr (trips_clean
                \<lparr>has_travel_time_calc := True,
                 table_rows := map (\<lambda>(row, t). row\<lparr>travel_time_calc := Some t\<rparr>)
                                 (zip (table_rows trips_clean) ts)\<rparr>))"

text \<open>
  \<open>trips_clean[(trips_clean.travel_time_calc < 120) & (trips_clean.daynum.isin([1,2,3,4,5]))]\<close>.
  A comparison with a missing value is false.
\<close>

definition filter_dataset :: "'a trip_scheme list \<Rightarrow> 'a trip_scheme list" where
  "filter_dataset trips_clean =
     filter (\<lambda>row. (case travel_time_calc row of None \<Rightarrow> False | Some t \<Rightarrow> t < 120)
                   \<and> daynum row \<in> set [1, 2, 3, 4, 5]) trips_clean"

text \<open>The three cells in the order of the notebook: the Cleaner.\<close>

definition cleaner :: "'a trip_scheme table \<Rightarrow> error + 'a trip_scheme table" where
  "cleaner trips =
     (case set_travel_time_calc (trips\<lparr>table_rows := dropna (table_rows trips)\<rparr>) of
        Inl e \<Rightarrow> Inl e
      | Inr trips_clean \<Rightarrow>
          Inr (trips_clean\<lparr>table_rows := filter_dataset (table_rows trips_clean)\<rparr>))"

section \<open>Step 3: the adult filter\<close>

text \<open>
  \<open>trips_clean[(trips_clean.age != "Under 5 years old") | (trips_clean.age != "5-11 years") |
  (trips_clean.age != "12-15 years") | (trips_clean.age != "16-17 years")]\<close>. A missing age
  differs from every string.
\<close>

definition trips_clean_adults :: "'a trip_scheme list \<Rightarrow> 'a trip_scheme list" where
  "trips_clean_adults trips_clean =
     filter (\<lambda>row. age row \<noteq> Some ''Under 5 years old'' \<or> age row \<noteq> Some ''5-11 years''
                   \<or> age row \<noteq> Some ''12-15 years'' \<or> age row \<noteq> Some ''16-17 years'')
       trips_clean"

section \<open>Step 4: mobility metrics\<close>

text \<open>
  The body of the \<open>for\<close> loop of \<open>mobility_metrics\<close>, on the loop state
  \<open>(trip_chains, start_home)\<close>. A \<open>continue\<close> leaves the state as it is at that point.
\<close>

definition trip_chains_step :: "'a trip_scheme \<Rightarrow> nat \<times> bool \<Rightarrow> nat \<times> bool" where
  "trip_chains_step row st =
     (case st of (trip_chains, start_home0) \<Rightarrow>
        let start_home = (if origin_purpose row = Some ''Went home'' then True else start_home0)
        in if dest_purpose row \<noteq> Some ''Went home'' \<and> start_home then (trip_chains, start_home)
           else if dest_purpose row = Some ''Went home'' \<and> origin_purpose row = Some ''Went home''
             then (trip_chains, start_home)
           else if dest_purpose row = Some ''Went home'' \<and> start_home then (trip_chains + 1, False)
           else (trip_chains, start_home))"

fun trip_chains_loop :: "'a trip_scheme list \<Rightarrow> nat \<times> bool \<Rightarrow> nat \<times> bool" where
  "trip_chains_loop [] st = st"
| "trip_chains_loop (row # rows) st = trip_chains_loop rows (trip_chains_step row st)"

text \<open>\<open>Series.sum()\<close> skips missing values.\<close>

definition sum_skipna :: "real option list \<Rightarrow> real" where
  "sum_skipna xs = sum_list (map (\<lambda>x. case x of None \<Rightarrow> 0 | Some v \<Rightarrow> v) xs)"

text \<open>
  \<open>mobility_metrics(row)\<close> reads the global table \<open>trips_clean\<close>, here its first
  argument, and returns \<open>[num_trips, pmt, vmt, trip_chains]\<close>.
\<close>

definition mobility_metrics ::
  "'a trip_scheme list \<Rightarrow> person_day \<Rightarrow> nat \<times> real \<times> real \<times> nat" where
  "mobility_metrics trips_clean row =
     (let trips_day_person =
            filter (\<lambda>t. person_dim_id t = pd_person_dim_id row \<and> daynum t = pd_daynum row)
              trips_clean;
          num_trips = length trips_day_person;
          pmt = sum_skipna (map trip_path_distance trips_day_person);
          vmt = sum_skipna (map trip_path_distance
                  (filter (\<lambda>t. mode_simple t = Some ''Drive'') trips_day_person));
          trip_chains = fst (trip_chains_loop trips_day_person (0, False))
      in (num_trips, pmt, vmt, trip_chains))"

definition num_trips_of :: "nat \<times> real \<times> real \<times> nat \<Rightarrow> nat" where
  "num_trips_of m = fst m"

definition trip_chains_of :: "nat \<times> real \<times> real \<times> nat \<Rightarrow> nat" where
  "trip_chains_of m = snd (snd (snd m))"

section \<open>Bonus: radius of gyration\<close>

text \<open>
  \<open>round(x, 3)\<close>: the nearest multiple of one thousandth, a tie going to the even one.
  Python returns the float nearest to that multiple; the idealisation is the multiple
  itself. A missing value rounds to a missing value.
\<close>

definition round_half_even :: "real \<Rightarrow> int" where
  "round_half_even x =
     (let f = \<lfloor>x\<rfloor>; d = x - of_int f
      in if d < 1 / 2 then f else if 1 / 2 < d then f + 1 else if even f then f else f + 1)"

definition round_float :: "real \<Rightarrow> real" where
  "round_float v = of_int (round_half_even (v * 1000)) / 1000"

definition round3 :: "real option \<Rightarrow> real option" where
  "round3 x = map_option round_float x"

text \<open>
  A point is a tuple \<open>(lat, lng)\<close>. A Python set is modelled as the list of its
  elements without repetition; the results below do not depend on the order. NaN is
  not equal to itself, so a missing value, or a point with a missing coordinate, is
  never found in the set and is added again.
\<close>

type_synonym point = "real option \<times> real option"

definition set_add :: "('a \<Rightarrow> bool) \<Rightarrow> 'a \<Rightarrow> 'a list \<Rightarrow> 'a list" where
  "set_add is_nan x s = (if is_nan x \<or> x \<notin> set s then s @ [x] else s)"

definition float_nan :: "real option \<Rightarrow> bool" where
  "float_nan x \<longleftrightarrow> x = None"

definition point_nan :: "point \<Rightarrow> bool" where
  "point_nan p \<longleftrightarrow> fst p = None \<or> snd p = None"

text \<open>\<open>np.mean\<close> of a list: missing for the empty list and for a list with a missing value.\<close>

definition np_mean :: "real option list \<Rightarrow> real option" where
  "np_mean xs =
     (if xs = [] \<or> None \<in> set xs then None
      else Some (sum_list (map the xs) / real (length xs)))"

text \<open>
  \<open>geopy.distance.geodesic(p, q).miles\<close> belongs to a library and is a parameter
  \<open>geo\<close> of the model: the distance in miles between two points with finite
  coordinates, or \<open>None\<close> where the library raises. For a point with a missing
  coordinate the library raises or returns NaN, so there is no distance.
\<close>

type_synonym geodesic = "real \<times> real \<Rightarrow> real \<times> real \<Rightarrow> real option"

definition geodesic_miles :: "geodesic \<Rightarrow> point \<Rightarrow> point \<Rightarrow> real option" where
  "geodesic_miles geo p q =
     (case (p, q) of
        ((Some lat1, Some lng1), (Some lat2, Some lng2)) \<Rightarrow> geo (lat1, lng1) (lat2, lng2)
      | _ \<Rightarrow> None)"

text \<open>The list comprehension of \<open>rog\<close>: the first distance that fails ends it.\<close>

fun distances :: "geodesic \<Rightarrow> point list \<Rightarrow> point \<Rightarrow> real list option" where
  "distances geo [] c = Some []"
| "distances geo (p # ps) c =
     (case geodesic_miles geo p c of
        None \<Rightarrow> None
      | Some d \<Rightarrow> (case distances geo ps c of None \<Rightarrow> None | Some ds \<Rightarrow> Some (d # ds)))"

text \<open>
  \<open>rog(points, centroid)\<close>, with \<open>centroid = (lng, lat)\<close>. The division raises
  \<open>ZeroDivisionError\<close> for an empty list of points.
\<close>

definition rog :: "geodesic \<Rightarrow> point list \<Rightarrow> real option \<times> real option \<Rightarrow> error + real" where
  "rog geo points centroid =
     (case distances geo points (snd centroid, fst centroid) of
        None \<Rightarrow> Inl ValueError
      | Some d_i \<Rightarrow>
         (let n = length d_i;
              sum_di = foldl (\<lambda>sum_di i. sum_di + (d_i ! i)\<^sup>2) 0 [0..<n]
          in if n = 0 then Inl ZeroDivisionError else Inr (sqrt (sum_di / real n))))"

text \<open>The body of the loop of \<open>rog_centroid_df\<close>, on \<open>(unique_lat, unique_lng, unique_pts)\<close>.\<close>

definition unique_step ::
  "'a trip_od_scheme \<Rightarrow> real option list \<times> real option list \<times> point list \<Rightarrow>
     real option list \<times> real option list \<times> point list" where
  "unique_step row st =
     (case st of (unique_lat, unique_lng, unique_pts) \<Rightarrow>
        let olat = round3 (origin_lat row);
            olng = round3 (origin_lng row);
            dlat = round3 (dest_lat row);
            dlng = round3 (dest_lng row)
        in (set_add float_nan dlat (set_add float_nan olat unique_lat),
            set_add float_nan dlng (set_add float_nan olng unique_lng),
            set_add point_nan (dlat, dlng) (set_add point_nan (olat, olng) unique_pts)))"

fun unique_loop ::
  "'a trip_od_scheme list \<Rightarrow> real option list \<times> real option list \<times> point list \<Rightarrow>
     real option list \<times> real option list \<times> point list" where
  "unique_loop [] st = st"
| "unique_loop (row # rows) st = unique_loop rows (unique_step row st)"

definition person_trips_df :: "'a trip_od_scheme list \<Rightarrow> 'b person_scheme \<Rightarrow> 'a trip_od_scheme list" where
  "person_trips_df trips_od row = filter (\<lambda>t. person_dim_id t = person_id row) trips_od"

text \<open>
  \<open>rog_centroid_df(row)\<close> reads the global table \<open>trips_od\<close>. The result is a cell of
  the column \<open>rog\<close> of \<open>persons\<close>: \<open>None\<close> is the missing value.
\<close>

definition rog_centroid_df :: "geodesic \<Rightarrow> 'a trip_od_scheme list \<Rightarrow> 'b person_scheme \<Rightarrow> real option" where
  "rog_centroid_df geo trips_od row =
     (case unique_loop (person_trips_df trips_od row) ([], [], []) of
        (unique_lat, unique_lng, unique_pts) \<Rightarrow>
          let centroid = (np_mean unique_lng, np_mean unique_lat)
          in (case rog geo unique_pts centroid of Inl e \<Rightarrow> None | Inr rog_centroid \<Rightarrow> Some rog_centroid))"

section \<open>Specification-level notions\<close>

text \<open>
  The instant of a timestamp, in microseconds from the start of day 0 of the calendar,
  and the travel time the specification asks for: the absolute difference of the two
  instants, in minutes.
\<close>

definition timestamp_us :: "datetime \<Rightarrow> int" where
  "timestamp_us dt =
     (((toordinal dt * 24 + int (hour dt)) * 60 + int (minute dt)) * 60 + int (second dt)) * 1000000
       + int (microsecond dt)"

definition spec_travel_time :: "datetime \<Rightarrow> datetime \<Rightarrow> real" where
  "spec_travel_time a d = \<bar>real_of_int (timestamp_us a) - real_of_int (timestamp_us d)\<bar> / 60000000"

text \<open>A row whose column \<open>travel_time_calc\<close> holds the travel time of its own timestamps.\<close>

definition recomputed :: "'a trip_scheme \<Rightarrow> bool" where
  "recomputed row \<longleftrightarrow> (\<exists>t. travel_time_manual row = Inr t \<and> travel_time_calc row = Some t)"

text \<open>
  The radius of gyration in the words of the specification, for a person all of whose
  trips carry their four coordinates: the set of the rounded points, the centroid made
  of the mean of the latitudes that occur and the mean of the longitudes that occur,
  each value counted once, and the root of the mean squared distance to it.
\<close>

definition coordinates_present :: "'a trip_od_scheme list \<Rightarrow> bool" where
  "coordinates_present rows \<longleftrightarrow>
     (\<forall>t\<in>set rows. origin_lat t \<noteq> None \<and> origin_lng t \<noteq> None
        \<and> dest_lat t \<noteq> None \<and> dest_lng t \<noteq> None)"

definition visited_points :: "'a trip_od_scheme list \<Rightarrow> (real \<times> real) set" where
  "visited_points rows =
     (\<Union>t\<in>set rows. {(round_float (the (origin_lat t)), round_float (the (origin_lng t))),
                      (round_float (the (dest_lat t)), round_float (the (dest_lng t)))})"

definition set_mean :: "real set \<Rightarrow> real" where
  "set_mean S = (\<Sum>x\<in>S. x) / real (card S)"

definition spec_centroid :: "(real \<times> real) set \<Rightarrow> real \<times> real" where
  "spec_centroid P = (set_mean (fst ` P), set_mean (snd ` P))"

definition distances_defined :: "geodesic \<Rightarrow> (real \<times> real) set \<Rightarrow> bool" where
  "distances_defined geo P \<longleftrightarrow> (\<forall>p\<in>P. geo p (spec_centroid P) \<noteq> None)"

definition spec_rog :: "geodesic \<Rightarrow> (real \<times> real) set \<Rightarrow> real" where
  "spec_rog geo P = sqrt ((\<Sum>p\<in>P. (the (geo p (spec_centroid P)))\<^sup>2) / real (card P))"

text \<open>
  Auxiliary notions of the proofs. The first is the recomputation on the rows of a table
  that has rows: the values of \<open>apply\<close> set as the column.
\<close>

definition recompute_rows :: "'a trip_scheme list \<Rightarrow> error + 'a trip_scheme list" where
  "recompute_rows rows =
     (case apply_rows rows of Inl e \<Rightarrow> Inl e
      | Inr ts \<Rightarrow> Inr (map (\<lambda>(row, t). row\<lparr>travel_time_calc := Some t\<rparr>) (zip rows ts)))"

definition lift_point :: "real \<times> real \<Rightarrow> point" where
  "lift_point p = (Some (fst p), Some (snd p))"

definition row_lats :: "'a trip_od_scheme \<Rightarrow> real option set" where
  "row_lats t = {round3 (origin_lat t), round3 (dest_lat t)}"

definition row_lngs :: "'a trip_od_scheme \<Rightarrow> real option set" where
  "row_lngs t = {round3 (origin_lng t), round3 (dest_lng t)}"

definition row_pts :: "'a trip_od_scheme \<Rightarrow> point set" where
  "row_pts t =
     {(round3 (origin_lat t), round3 (origin_lng t)), (round3 (dest_lat t), round3 (dest_lng t))}"

section \<open>Example tables\<close>

definition ex_trip :: trip where
  "ex_trip =
     \<lparr>person_dim_id = 1, daynum = 2,
      origin_purpose = Some ''Went home'', dest_purpose = Some ''Went to work'',
      depart_time_string = Some ''Date: 2019-05-07 08:00:00.0000000'',
      arrival_time_string = Some ''Date: 2019-05-07 08:30:00.0000000'',
      travel_time_calc = None, trip_path_distance = Some 5,
      mode_simple = Some ''Drive'', age = Some ''5-11 years''\<rparr>"

definition ex_trip_od :: trip_od where
  "ex_trip_od =
     \<lparr>person_dim_id = 1, daynum = 2,
      origin_purpose = Some ''Went home'', dest_purpose = Some ''Went to work'',
      depart_time_string = Some ''Date: 2019-05-07 08:00:00.0000000'',
      arrival_time_string = Some ''Date: 2019-05-07 08:30:00.0000000'',
      travel_time_calc = Some 30, trip_path_distance = Some 5,
      mode_simple = Some ''Drive'', age = Some ''35-44 years'',
      origin_lat = Some 47, origin_lng = Some (-120),
      dest_lat = Some 47, dest_lng = Some (-124)\<rparr>"

definition ex_trips_od :: "trip_od list" where
  "ex_trips_od =
     [ex_trip_od,
      ex_trip_od\<lparr>origin_lat := Some (470003 / 10000), origin_lng := Some (- (1240003 / 10000)),
                 dest_lat := Some 49, dest_lng := Some (- 124)\<rparr>]"

text \<open>A trip of the same person that the location table does not have.\<close>

definition ex_unlocated :: trip_od where
  "ex_unlocated =
     ex_trip_od\<lparr>origin_lat := None, origin_lng := None, dest_lat := None, dest_lng := None\<rparr>"

text \<open>The raw table with the given rows.\<close>

definition raw_table :: "'r list \<Rightarrow> 'r table" where
  "raw_table rs = \<lparr>has_travel_time_calc = False, table_rows = rs\<rparr>"

definition ex_person :: person where
  "ex_person = \<lparr>person_id = 1, gender = None\<rparr>"

text \<open>
  A stand-in for the distance of the library, to run the model on the example tables:
  the sum of the differences of the coordinates.
\<close>

definition taxicab :: geodesic where
  "taxicab p q = Some (\<bar>fst p - fst q\<bar> + \<bar>snd p - snd q\<bar>)"

section \<open>Properties of the trip chains\<close>

lemma trip_chains_loop_bound:
  "fst (trip_chains_loop rows (c, s)) \<le> c + length rows"
proof (induction rows arbitrary: c s)
  case Nil
  show ?case by simp
next
  case (Cons row rows)
  obtain c' s' where st: "trip_chains_step row (c, s) = (c', s')"
    by (cases "trip_chains_step row (c, s)")
  then have "c' \<le> c + 1"
    by (auto simp: trip_chains_step_def Let_def split: if_splits)
  moreover have "fst (trip_chains_loop rows (c', s')) \<le> c' + length rows"
    by (rule Cons.IH)
  ultimately show ?case using st by simp
qed

lemma trip_chains_loop_no_home:
  "\<forall>t\<in>set rows. dest_purpose t \<noteq> Some ''Went home'' \<Longrightarrow>
   fst (trip_chains_loop rows (c, s)) = c"
proof (induction rows arbitrary: c s)
  case Nil
  show ?case by simp
next
  case (Cons row rows)
  obtain c' s' where st: "trip_chains_step row (c, s) = (c', s')"
    by (cases "trip_chains_step row (c, s)")
  with Cons.prems have "c' = c"
    by (auto simp: trip_chains_step_def Let_def split: if_splits)
  moreover have "fst (trip_chains_loop rows (c', s')) = c'"
    using Cons.prems by (intro Cons.IH) simp
  ultimately show ?case using st by simp
qed

text \<open>
  C1: for one person-day, the trips home to work, work to home give one trip chain; the
  single trip home to home gives none; the trips home to work, work to store, store to
  home give one. Home is the purpose \<open>Went home\<close>; work and store are any other purposes.
\<close>

theorem trip_chain_examples:
  assumes "work \<noteq> Some ''Went home''" and "store \<noteq> Some ''Went home''"
  shows "trip_chains_of (mobility_metrics
           [a\<lparr>person_dim_id := p, daynum := d,
              origin_purpose := Some ''Went home'', dest_purpose := work\<rparr>,
            b\<lparr>person_dim_id := p, daynum := d,
              origin_purpose := work, dest_purpose := Some ''Went home''\<rparr>]
           \<lparr>pd_person_dim_id = p, pd_daynum = d\<rparr>) = 1
       \<and> trip_chains_of (mobility_metrics
           [a\<lparr>person_dim_id := p, daynum := d,
              origin_purpose := Some ''Went home'', dest_purpose := Some ''Went home''\<rparr>]
           \<lparr>pd_person_dim_id = p, pd_daynum = d\<rparr>) = 0
       \<and> trip_chains_of (mobility_metrics
           [a\<lparr>person_dim_id := p, daynum := d,
              origin_purpose := Some ''Went home'', dest_purpose := work\<rparr>,
            b\<lparr>person_dim_id := p, daynum := d,
              origin_purpose := work, dest_purpose := store\<rparr>,
            c\<lparr>person_dim_id := p, daynum := d,
              origin_purpose := store, dest_purpose := Some ''Went home''\<rparr>]
           \<lparr>pd_person_dim_id = p, pd_daynum = d\<rparr>) = 1"
  using assms
  by (simp add: trip_chains_of_def mobility_metrics_def trip_chains_step_def Let_def)

theorem trip_chain_examples_witness:
  "Some ''Went to work'' \<noteq> Some ''Went home''
   \<and> Some ''Went grocery shopping'' \<noteq> Some ''Went home''
   \<and> trip_chains_of (mobility_metrics
        [ex_trip\<lparr>person_dim_id := 1, daynum := 2,
           origin_purpose := Some ''Went home'', dest_purpose := Some ''Went to work''\<rparr>,
         ex_trip\<lparr>person_dim_id := 1, daynum := 2,
           origin_purpose := Some ''Went to work'', dest_purpose := Some ''Went home''\<rparr>]
        \<lparr>pd_person_dim_id = 1, pd_daynum = 2\<rparr>) = 1
   \<and> trip_chains_of (mobility_metrics
        [ex_trip\<lparr>person_dim_id := 1, daynum := 2,
           origin_purpose := Some ''Went home'', dest_purpose := Some ''Went home''\<rparr>]
        \<lparr>pd_person_dim_id = 1, pd_daynum = 2\<rparr>) = 0
   \<and> trip_chains_of (mobility_metrics
        [ex_trip\<lparr>person_dim_id := 1, daynum := 2,
           origin_purpose := Some ''Went home'', dest_purpose := Some ''Went to work''\<rparr>,
         ex_trip\<lparr>person_dim_id := 1, daynum := 2,
           origin_purpose := Some ''Went to work'', dest_purpose := Some ''Went grocery shopping''\<rparr>,
         ex_trip\<lparr>person_dim_id := 1, daynum := 2,
           origin_purpose := Some ''Went grocery shopping'', dest_purpose := Some ''Went home''\<rparr>]
        \<lparr>pd_person_dim_id = 1, pd_daynum = 2\<rparr>) = 1"
  using trip_chain_examples [where work = "Some ''Went to work''"
      and store = "Some ''Went grocery shopping''" and a = ex_trip and b = ex_trip
      and c = ex_trip and p = 1 and d = 2]
  by simp

text \<open>
  C8: for every person-day the trip-chain count is at most the number of trips of that
  person-day, and it is 0 when no trip of the person-day has \<open>Went home\<close> as its origin
  or destination purpose.
\<close>

theorem trip_chains_bounded:
  "trip_chains_of (mobility_metrics trips_clean row) \<le> num_trips_of (mobility_metrics trips_clean row)
   \<and> ((\<forall>t\<in>set trips_clean.
          person_dim_id t = pd_person_dim_id row \<and> daynum t = pd_daynum row \<longrightarrow>
          origin_purpose t \<noteq> Some ''Went home'' \<and> dest_purpose t \<noteq> Some ''Went home'')
        \<longrightarrow> trip_chains_of (mobility_metrics trips_clean row) = 0)"
proof -
  let ?day = "filter (\<lambda>t. person_dim_id t = pd_person_dim_id row \<and> daynum t = pd_daynum row) trips_clean"
  have tc: "trip_chains_of (mobility_metrics trips_clean row) = fst (trip_chains_loop ?day (0, False))"
    by (simp add: trip_chains_of_def mobility_metrics_def Let_def)
  have n: "num_trips_of (mobility_metrics trips_clean row) = length ?day"
    by (simp add: num_trips_of_def mobility_metrics_def Let_def)
  have "fst (trip_chains_loop ?day (0, False)) \<le> length ?day"
    using trip_chains_loop_bound [of ?day 0 False] by simp
  moreover have "fst (trip_chains_loop ?day (0, False)) = 0"
    if "\<forall>t\<in>set trips_clean.
          person_dim_id t = pd_person_dim_id row \<and> daynum t = pd_daynum row \<longrightarrow>
          origin_purpose t \<noteq> Some ''Went home'' \<and> dest_purpose t \<noteq> Some ''Went home''"
    using that by (intro trip_chains_loop_no_home) simp
  ultimately show ?thesis using tc n by simp
qed

theorem trip_chains_bounded_witness:
  "origin_purpose (ex_trip\<lparr>origin_purpose := Some ''Went to work'',
      dest_purpose := Some ''Went grocery shopping''\<rparr>) \<noteq> Some ''Went home''
   \<and> dest_purpose (ex_trip\<lparr>origin_purpose := Some ''Went to work'',
      dest_purpose := Some ''Went grocery shopping''\<rparr>) \<noteq> Some ''Went home''
   \<and> person_dim_id (ex_trip\<lparr>person_dim_id := 9\<rparr>) \<noteq> 1
   \<and> num_trips_of (mobility_metrics
        [ex_trip\<lparr>origin_purpose := Some ''Went to work'',
           dest_purpose := Some ''Went grocery shopping''\<rparr>,
         ex_trip\<lparr>person_dim_id := 9\<rparr>] \<lparr>pd_person_dim_id = 1, pd_daynum = 2\<rparr>) = 1
   \<and> trip_chains_of (mobility_metrics
        [ex_trip\<lparr>origin_purpose := Some ''Went to work'',
           dest_purpose := Some ''Went grocery shopping''\<rparr>,
         ex_trip\<lparr>person_dim_id := 9\<rparr>] \<lparr>pd_person_dim_id = 1, pd_daynum = 2\<rparr>) = 0"
  using trip_chains_bounded
    [of "[ex_trip\<lparr>origin_purpose := Some ''Went to work'',
            dest_purpose := Some ''Went grocery shopping''\<rparr>,
          ex_trip\<lparr>person_dim_id := 9\<rparr>]" "\<lparr>pd_person_dim_id = 1, pd_daynum = 2\<rparr>"]
  by (simp add: ex_trip_def num_trips_of_def mobility_metrics_def)

section \<open>Properties of the Cleaner\<close>

lemma datetime_sub_timestamp: "datetime_sub a b = timestamp_us a - timestamp_us b"
  by (simp add: datetime_sub_def timestamp_us_def Let_def algebra_simps)

lemma travel_time_manual_parsed:
  assumes "arrival_time_string row = Some arr" and "depart_time_string row = Some dep"
    and "strptime (butlast arr) = Some a" and "strptime (butlast dep) = Some d"
  shows "travel_time_manual row = Inr (spec_travel_time a d)"
  using assms
  by (simp add: travel_time_manual_def total_seconds_def spec_travel_time_def
      datetime_sub_timestamp Let_def)

lemma travel_time_manual_Inr:
  assumes "travel_time_manual row = Inr t"
  shows "\<exists>arr dep a d. arrival_time_string row = Some arr \<and> depart_time_string row = Some dep
           \<and> strptime (butlast arr) = Some a \<and> strptime (butlast dep) = Some d
           \<and> t = spec_travel_time a d"
  using assms
  by (auto simp: travel_time_manual_def total_seconds_def spec_travel_time_def
      datetime_sub_timestamp Let_def split: option.splits)

lemma travel_time_manual_unparsed:
  assumes "arrival_time_string row = Some arr" and "depart_time_string row = Some dep"
    and "strptime (butlast arr) = None \<or> strptime (butlast dep) = None"
  shows "travel_time_manual row = Inl ValueError"
  using assms by (auto simp: travel_time_manual_def Let_def split: option.splits)

lemma travel_time_manual_TypeError:
  "travel_time_manual row = Inl TypeError \<longleftrightarrow>
     arrival_time_string row = None \<or> depart_time_string row = None"
  by (auto simp: travel_time_manual_def Let_def split: option.splits)

lemma travel_time_manual_no_ZeroDivisionError:
  "travel_time_manual row \<noteq> Inl ZeroDivisionError"
  by (auto simp: travel_time_manual_def Let_def split: option.splits)

lemma travel_time_manual_update [simp]:
  "travel_time_manual (row\<lparr>travel_time_calc := x\<rparr>) = travel_time_manual row"
  by (simp add: travel_time_manual_def split: option.splits)

lemma recompute_rows_Nil [simp]: "recompute_rows [] = Inr []"
  by (simp add: recompute_rows_def)

lemma recompute_rows_Cons:
  "recompute_rows (row # rows) =
     (case travel_time_manual row of Inl e \<Rightarrow> Inl e
      | Inr t \<Rightarrow> (case recompute_rows rows of Inl e \<Rightarrow> Inl e
                  | Inr out \<Rightarrow> Inr (row\<lparr>travel_time_calc := Some t\<rparr> # out)))"
  by (simp add: recompute_rows_def split: sum.splits)

lemma recompute_rows_rows:
  "recompute_rows rows = Inr out \<Longrightarrow> r \<in> set out \<Longrightarrow> recomputed r"
proof (induction rows arbitrary: out)
  case Nil
  then show ?case by simp
next
  case (Cons row rows)
  then show ?case
    by (auto simp: recompute_rows_Cons recomputed_def split: sum.splits)
qed

lemma recompute_rows_fixed:
  "\<forall>r\<in>set rows. recomputed r \<Longrightarrow> recompute_rows rows = Inr rows"
proof (induction rows)
  case Nil
  show ?case by simp
next
  case (Cons row rows)
  then show ?case
    by (auto simp: recompute_rows_Cons recomputed_def)
qed

lemma recompute_rows_Inr_all:
  "recompute_rows rows = Inr out \<Longrightarrow> r \<in> set rows \<Longrightarrow> \<exists>t. travel_time_manual r = Inr t"
proof (induction rows arbitrary: out)
  case Nil
  then show ?case by simp
next
  case (Cons row rows)
  then show ?case
    by (auto simp: recompute_rows_Cons split: sum.splits)
qed

lemma recompute_rows_Inl_some:
  "recompute_rows rows = Inl e \<Longrightarrow> \<exists>r\<in>set rows. travel_time_manual r = Inl e"
proof (induction rows)
  case Nil
  then show ?case by simp
next
  case (Cons row rows)
  then show ?case
    by (auto simp: recompute_rows_Cons split: sum.splits)
qed

text \<open>The assignment of the column, by the cases of the table.\<close>

lemma set_travel_time_calc_eq:
  "set_travel_time_calc trips_clean =
     (if table_rows trips_clean = []
      then (if has_travel_time_calc trips_clean then Inr trips_clean else Inl ValueError)
      else (case recompute_rows (table_rows trips_clean) of
              Inl e \<Rightarrow> Inl e
            | Inr out \<Rightarrow> Inr (trips_clean\<lparr>has_travel_time_calc := True, table_rows := out\<rparr>)))"
  by (simp add: set_travel_time_calc_def apply_travel_time_manual_def recompute_rows_def
      split: sum.splits)

lemma dropna_set:
  "r \<in> set (dropna trips) \<longleftrightarrow>
     r \<in> set trips \<and> depart_time_string r \<noteq> None \<and> arrival_time_string r \<noteq> None"
  by (auto simp: dropna_def)

lemma filter_dataset_set:
  "r \<in> set (filter_dataset trips_clean) \<longleftrightarrow>
     r \<in> set trips_clean \<and> (\<exists>t. travel_time_calc r = Some t \<and> t < 120)
       \<and> daynum r \<in> {1, 2, 3, 4, 5}"
  by (auto simp: filter_dataset_def split: option.splits)

lemma cleaner_Inr:
  assumes "cleaner trips = Inr out"
  shows "has_travel_time_calc out
    \<and> (table_rows out = []
        \<or> (\<exists>tc. recompute_rows (dropna (table_rows trips)) = Inr tc
              \<and> table_rows out = filter_dataset tc))"
proof (cases "dropna (table_rows trips) = []")
  case True
  have s: "set_travel_time_calc (trips\<lparr>table_rows := []\<rparr>) =
      (if has_travel_time_calc trips then Inr (trips\<lparr>table_rows := []\<rparr>) else Inl ValueError)"
    by (simp add: set_travel_time_calc_eq)
  have h: "has_travel_time_calc trips"
  proof (rule ccontr)
    assume "\<not> has_travel_time_calc trips"
    with s True have "cleaner trips = Inl ValueError" by (simp add: cleaner_def)
    with assms show False by simp
  qed
  with s True have "cleaner trips = Inr (trips\<lparr>table_rows := filter_dataset []\<rparr>)"
    by (simp add: cleaner_def)
  with assms have "out = trips\<lparr>table_rows := filter_dataset []\<rparr>" by simp
  with h show ?thesis by (simp add: filter_dataset_def)
next
  case False
  show ?thesis
  proof (cases "recompute_rows (dropna (table_rows trips))")
    case (Inl e)
    with False have "cleaner trips = Inl e"
      by (simp add: cleaner_def set_travel_time_calc_eq)
    with assms show ?thesis by simp
  next
    case (Inr tc)
    with False have "cleaner trips =
        Inr (trips\<lparr>has_travel_time_calc := True, table_rows := filter_dataset tc\<rparr>)"
      by (simp add: cleaner_def set_travel_time_calc_eq)
    with assms have "out = trips\<lparr>has_travel_time_calc := True, table_rows := filter_dataset tc\<rparr>"
      by simp
    with Inr show ?thesis by simp
  qed
qed

lemma cleaner_rows:
  assumes "cleaner trips = Inr out" and "r \<in> set (table_rows out)"
  shows "recomputed r \<and> (\<exists>t. travel_time_calc r = Some t \<and> t < 120) \<and> daynum r \<in> {1, 2, 3, 4, 5}"
proof -
  from assms(2) have "table_rows out \<noteq> []" by auto
  with cleaner_Inr [OF assms(1)] obtain tc where
    tc: "recompute_rows (dropna (table_rows trips)) = Inr tc"
    and out: "table_rows out = filter_dataset tc"
    by blast
  from assms(2) out have r: "r \<in> set tc" and f: "(\<exists>t. travel_time_calc r = Some t \<and> t < 120)"
    "daynum r \<in> {1, 2, 3, 4, 5}"
    by (simp_all add: filter_dataset_set)
  from tc r have "recomputed r" by (rule recompute_rows_rows)
  with f show ?thesis by simp
qed

lemma cleaner_fixed:
  assumes "has_travel_time_calc t"
    and "\<forall>r\<in>set (table_rows t). recomputed r \<and> (\<exists>x. travel_time_calc r = Some x \<and> x < 120)
             \<and> daynum r \<in> {1, 2, 3, 4, 5}"
  shows "cleaner t = Inr t"
proof -
  have "\<forall>r\<in>set (table_rows t). depart_time_string r \<noteq> None \<and> arrival_time_string r \<noteq> None"
    using assms(2) by (auto simp: recomputed_def dest!: travel_time_manual_Inr)
  then have d: "dropna (table_rows t) = table_rows t" by (simp add: dropna_def)
  have s: "recompute_rows (table_rows t) = Inr (table_rows t)"
    using assms(2) by (intro recompute_rows_fixed) simp
  have "\<forall>r\<in>set (table_rows t). r \<in> set (filter_dataset (table_rows t))"
    using assms(2) by (simp add: filter_dataset_set)
  then have f: "filter_dataset (table_rows t) = table_rows t"
    by (simp add: filter_dataset_def)
  have u: "t\<lparr>has_travel_time_calc := True\<rparr> = t"
    using assms(1) by (cases t) simp
  show ?thesis
  proof (cases "table_rows t = []")
    case True
    then have "t\<lparr>table_rows := []\<rparr> = t" by (cases t) simp
    with True assms(1) show ?thesis
      by (simp add: cleaner_def dropna_def set_travel_time_calc_eq filter_dataset_def)
  next
    case False
    then show ?thesis
      by (simp add: cleaner_def d set_travel_time_calc_eq s f u)
  qed
qed

lemma cleaner_unparsed:
  assumes "r \<in> set (table_rows trips)" and "arrival_time_string r = Some arr"
    and "depart_time_string r = Some dep"
    and "strptime (butlast arr) = None \<or> strptime (butlast dep) = None"
  shows "cleaner trips = Inl ValueError"
proof -
  from assms(1-3) have rd: "r \<in> set (dropna (table_rows trips))" by (simp add: dropna_set)
  then have ne: "dropna (table_rows trips) \<noteq> []" by auto
  from assms(2-4) have bad: "travel_time_manual r = Inl ValueError"
    by (rule travel_time_manual_unparsed)
  show ?thesis
  proof (cases "recompute_rows (dropna (table_rows trips))")
    case (Inl e)
    then obtain r' where r': "r' \<in> set (dropna (table_rows trips))" "travel_time_manual r' = Inl e"
      by (auto dest: recompute_rows_Inl_some)
    from r'(1) have "arrival_time_string r' \<noteq> None" "depart_time_string r' \<noteq> None"
      by (simp_all add: dropna_set)
    then have "travel_time_manual r' \<noteq> Inl TypeError"
      by (simp add: travel_time_manual_TypeError)
    with r'(2) travel_time_manual_no_ZeroDivisionError [of r'] have "e = ValueError"
      by (cases e) simp_all
    with Inl ne show ?thesis
      by (simp add: cleaner_def set_travel_time_calc_eq)
  next
    case (Inr tc)
    from recompute_rows_Inr_all [OF this rd] bad show ?thesis by simp
  qed
qed

subsection \<open>The example rows\<close>

lemmas strptime_eval = strptime_def literal_Date_def lower_def spaces_def is_space_def is_digit_def
  number_def nat_of_digits_def digit_val_def literal_def directive_d_def valid_datetime_def
  days_in_month_def is_leap_def

lemma strptime_0800:
  "strptime ''Date: 2019-05-07 08:00:00.000000'' =
     Some \<lparr>year = 2019, month = 5, day = 7, hour = 8, minute = 0, second = 0, microsecond = 0\<rparr>"
  by (simp add: strptime_eval)

lemma strptime_0830:
  "strptime ''Date: 2019-05-07 08:30:00.000000'' =
     Some \<lparr>year = 2019, month = 5, day = 7, hour = 8, minute = 30, second = 0, microsecond = 0\<rparr>"
  by (simp add: strptime_eval)

lemma strptime_1100:
  "strptime ''Date: 2019-05-07 11:00:00.000000'' =
     Some \<lparr>year = 2019, month = 5, day = 7, hour = 11, minute = 0, second = 0, microsecond = 0\<rparr>"
  by (simp add: strptime_eval)

lemma strptime_2350:
  "strptime ''Date: 2020-02-29 23:50:00.000000'' =
     Some \<lparr>year = 2020, month = 2, day = 29, hour = 23, minute = 50, second = 0, microsecond = 0\<rparr>"
  by (simp add: strptime_eval)

lemma strptime_0020:
  "strptime ''Date: 2020-03-02 00:20:00.500000'' =
     Some \<lparr>year = 2020, month = 3, day = 2, hour = 0, minute = 20, second = 0, microsecond = 500000\<rparr>"
  by (simp add: strptime_eval)

lemma strptime_no_format: "strptime ''2019-05-07 08:30'' = None"
  by (simp add: strptime_eval)

lemma travel_time_30:
  assumes "depart_time_string row = Some ''Date: 2019-05-07 08:00:00.0000000''"
    and "arrival_time_string row = Some ''Date: 2019-05-07 08:30:00.0000000''"
  shows "travel_time_manual row = Inr 30"
  using assms
  by (simp add: travel_time_manual_def strptime_0800 strptime_0830 datetime_sub_def
      toordinal_def total_seconds_def)

lemma travel_time_180:
  assumes "depart_time_string row = Some ''Date: 2019-05-07 08:00:00.0000000''"
    and "arrival_time_string row = Some ''Date: 2019-05-07 11:00:00.0000000''"
  shows "travel_time_manual row = Inr 180"
  using assms
  by (simp add: travel_time_manual_def strptime_0800 strptime_1100 datetime_sub_def
      toordinal_def total_seconds_def)

lemma travel_time_no_format:
  assumes "depart_time_string row = Some ''Date: 2019-05-07 08:00:00.0000000''"
    and "arrival_time_string row = Some ''2019-05-07 08:30:''"
  shows "travel_time_manual row = Inl ValueError"
  using assms
  by (simp add: travel_time_manual_def strptime_0800 strptime_no_format)

lemma cleaner_raw_eval:
  "cleaner (raw_table rs) =
     (if dropna rs = [] then Inl ValueError
      else (case recompute_rows (dropna rs) of
              Inl e \<Rightarrow> Inl e
            | Inr out \<Rightarrow> Inr \<lparr>has_travel_time_calc = True, table_rows = filter_dataset out\<rparr>))"
  by (simp add: cleaner_def raw_table_def set_travel_time_calc_eq split: sum.splits)

lemma spec_travel_time_night:
  "spec_travel_time
     \<lparr>year = 2020, month = 2, day = 29, hour = 23, minute = 50, second = 0, microsecond = 0\<rparr>
     \<lparr>year = 2020, month = 3, day = 2, hour = 0, minute = 20, second = 0, microsecond = 500000\<rparr>
   = 176401 / 120"
  by (simp add: spec_travel_time_def timestamp_us_def toordinal_def days_before_year_def
      days_before_month_def days_in_month_def is_leap_def upt_rec)

subsection \<open>The claims about the Cleaner\<close>

text \<open>
  C2: for a row whose arrival and departure strings both parse, the recomputed travel
  time is the absolute difference of the two parsed timestamps in minutes, and it is not
  negative. This holds for the function and for the column of every row of the cleaned
  table.
\<close>

theorem travel_time_is_absolute_difference:
  "(arrival_time_string row = Some arr \<and> depart_time_string row = Some dep
      \<and> strptime (butlast arr) = Some a \<and> strptime (butlast dep) = Some d
     \<longrightarrow> travel_time_manual row = Inr (spec_travel_time a d) \<and> 0 \<le> spec_travel_time a d)
   \<and> (cleaner trips = Inr out \<and> r \<in> set (table_rows out)
     \<longrightarrow> (\<exists>arr dep a d. arrival_time_string r = Some arr \<and> depart_time_string r = Some dep
            \<and> strptime (butlast arr) = Some a \<and> strptime (butlast dep) = Some d
            \<and> travel_time_calc r = Some (spec_travel_time a d) \<and> 0 \<le> spec_travel_time a d))"
proof (intro conjI impI)
  assume h: "arrival_time_string row = Some arr \<and> depart_time_string row = Some dep
      \<and> strptime (butlast arr) = Some a \<and> strptime (butlast dep) = Some d"
  then show "travel_time_manual row = Inr (spec_travel_time a d)"
    by (auto intro: travel_time_manual_parsed)
  show "0 \<le> spec_travel_time a d" by (simp add: spec_travel_time_def)
next
  assume h: "cleaner trips = Inr out \<and> r \<in> set (table_rows out)"
  then have "recomputed r" using cleaner_rows by blast
  then obtain t where t: "travel_time_manual r = Inr t" "travel_time_calc r = Some t"
    by (auto simp: recomputed_def)
  from travel_time_manual_Inr [OF t(1)] obtain arr dep a d where
    p: "arrival_time_string r = Some arr" "depart_time_string r = Some dep"
      "strptime (butlast arr) = Some a" "strptime (butlast dep) = Some d"
      "t = spec_travel_time a d" by blast
  have "0 \<le> spec_travel_time a d" by (simp add: spec_travel_time_def)
  with p t(2) show "\<exists>arr dep a d. arrival_time_string r = Some arr \<and> depart_time_string r = Some dep
            \<and> strptime (butlast arr) = Some a \<and> strptime (butlast dep) = Some d
            \<and> travel_time_calc r = Some (spec_travel_time a d) \<and> 0 \<le> spec_travel_time a d"
    by blast
qed

theorem travel_time_is_absolute_difference_witness:
  "arrival_time_string (ex_trip\<lparr>arrival_time_string := Some ''Date: 2020-02-29 23:50:00.0000000'',
      depart_time_string := Some ''Date: 2020-03-02 00:20:00.5000000''\<rparr>)
     = Some ''Date: 2020-02-29 23:50:00.0000000''
   \<and> depart_time_string (ex_trip\<lparr>arrival_time_string := Some ''Date: 2020-02-29 23:50:00.0000000'',
      depart_time_string := Some ''Date: 2020-03-02 00:20:00.5000000''\<rparr>)
     = Some ''Date: 2020-03-02 00:20:00.5000000''
   \<and> strptime (butlast ''Date: 2020-02-29 23:50:00.0000000'') =
       Some \<lparr>year = 2020, month = 2, day = 29, hour = 23, minute = 50, second = 0, microsecond = 0\<rparr>
   \<and> strptime (butlast ''Date: 2020-03-02 00:20:00.5000000'') =
       Some \<lparr>year = 2020, month = 3, day = 2, hour = 0, minute = 20, second = 0, microsecond = 500000\<rparr>
   \<and> travel_time_manual (ex_trip\<lparr>arrival_time_string := Some ''Date: 2020-02-29 23:50:00.0000000'',
      depart_time_string := Some ''Date: 2020-03-02 00:20:00.5000000''\<rparr>) = Inr (176401 / 120)
   \<and> cleaner (raw_table [ex_trip]) =
       Inr \<lparr>has_travel_time_calc = True, table_rows = [ex_trip\<lparr>travel_time_calc := Some 30\<rparr>]\<rparr>
   \<and> ex_trip\<lparr>travel_time_calc := Some 30\<rparr>
       \<in> set (table_rows
            \<lparr>has_travel_time_calc = True, table_rows = [ex_trip\<lparr>travel_time_calc := Some 30\<rparr>]\<rparr>)
   \<and> travel_time_calc (ex_trip\<lparr>travel_time_calc := Some 30\<rparr>) = Some 30"
  using travel_time_is_absolute_difference
    [of "ex_trip\<lparr>arrival_time_string := Some ''Date: 2020-02-29 23:50:00.0000000'',
           depart_time_string := Some ''Date: 2020-03-02 00:20:00.5000000''\<rparr>"
        "''Date: 2020-02-29 23:50:00.0000000''" "''Date: 2020-03-02 00:20:00.5000000''"
        "\<lparr>year = 2020, month = 2, day = 29, hour = 23, minute = 50, second = 0, microsecond = 0\<rparr>"
        "\<lparr>year = 2020, month = 3, day = 2, hour = 0, minute = 20, second = 0, microsecond = 500000\<rparr>"
        "raw_table [ex_trip]"
        "\<lparr>has_travel_time_calc = True, table_rows = [ex_trip\<lparr>travel_time_calc := Some 30\<rparr>]\<rparr>"
        "ex_trip\<lparr>travel_time_calc := Some 30\<rparr>"]
  by (simp add: strptime_2350 strptime_0020 spec_travel_time_night cleaner_raw_eval dropna_def
      recompute_rows_Cons travel_time_30 filter_dataset_def ex_trip_def)

text \<open>
  C3: the plausibility filter keeps exactly the rows whose recomputed travel time is below
  the ceiling of 120 minutes and whose day number is one of 1 to 5: such a row of the
  table is kept, any other row is removed, and the kept rows stay in their order.
\<close>

theorem filter_dataset_exact:
  "(r \<in> set (filter_dataset trips_clean) \<longleftrightarrow>
      r \<in> set trips_clean \<and> (\<exists>t. travel_time_calc r = Some t \<and> t < 120)
        \<and> daynum r \<in> {1, 2, 3, 4, 5})
   \<and> filter_dataset trips_clean =
       filter (\<lambda>row. row \<in> set (filter_dataset trips_clean)) trips_clean"
proof
  show "r \<in> set (filter_dataset trips_clean) \<longleftrightarrow>
      r \<in> set trips_clean \<and> (\<exists>t. travel_time_calc r = Some t \<and> t < 120)
        \<and> daynum r \<in> {1, 2, 3, 4, 5}"
    by (rule filter_dataset_set)
  show "filter_dataset trips_clean =
       filter (\<lambda>row. row \<in> set (filter_dataset trips_clean)) trips_clean"
    unfolding filter_dataset_def by (rule filter_cong) auto
qed

theorem filter_dataset_exact_witness:
  "filter_dataset
     [ex_trip\<lparr>travel_time_calc := Some 30, daynum := 2\<rparr>,
      ex_trip\<lparr>travel_time_calc := Some 30, daynum := 6\<rparr>,
      ex_trip\<lparr>travel_time_calc := Some 180, daynum := 3\<rparr>,
      ex_trip\<lparr>travel_time_calc := Some (239 / 2), daynum := 5\<rparr>,
      ex_trip\<lparr>travel_time_calc := Some 120, daynum := 1\<rparr>,
      ex_trip\<lparr>travel_time_calc := None, daynum := 1\<rparr>,
      ex_trip\<lparr>travel_time_calc := Some 10, daynum := 7\<rparr>]
   = [ex_trip\<lparr>travel_time_calc := Some 30, daynum := 2\<rparr>,
      ex_trip\<lparr>travel_time_calc := Some (239 / 2), daynum := 5\<rparr>]"
  using filter_dataset_exact
    [of "ex_trip\<lparr>travel_time_calc := Some 30, daynum := 2\<rparr>"
        "[ex_trip\<lparr>travel_time_calc := Some 30, daynum := 2\<rparr>,
          ex_trip\<lparr>travel_time_calc := Some 30, daynum := 6\<rparr>,
          ex_trip\<lparr>travel_time_calc := Some 180, daynum := 3\<rparr>,
          ex_trip\<lparr>travel_time_calc := Some (239 / 2), daynum := 5\<rparr>,
          ex_trip\<lparr>travel_time_calc := Some 120, daynum := 1\<rparr>,
          ex_trip\<lparr>travel_time_calc := None, daynum := 1\<rparr>,
          ex_trip\<lparr>travel_time_calc := Some 10, daynum := 7\<rparr>]"]
  by (simp add: filter_dataset_def ex_trip_def)

text \<open>
  C4, as the code has it: when a row that has both timestamp strings carries one that,
  with its last character dropped as \<open>travel_time_manual\<close> drops it, does not parse
  with the expected date and time format, the Cleaner raises \<open>ValueError\<close> and gives
  no cleaned table: the row is not left out on its own, the failure is not recorded or
  counted, and the other rows do not appear either. The unparseable value is never turned
  into a default, since there is no output.
\<close>

theorem parse_failure_raises:
  "r \<in> set (table_rows trips) \<and> arrival_time_string r = Some arr
     \<and> depart_time_string r = Some dep
     \<and> (strptime (butlast arr) = None \<or> strptime (butlast dep) = None)
   \<longrightarrow> cleaner trips = Inl ValueError \<and> (\<forall>out. cleaner trips \<noteq> Inr out)"
proof
  assume "r \<in> set (table_rows trips) \<and> arrival_time_string r = Some arr
     \<and> depart_time_string r = Some dep
     \<and> (strptime (butlast arr) = None \<or> strptime (butlast dep) = None)"
  then have "cleaner trips = Inl ValueError"
    using cleaner_unparsed by blast
  then show "cleaner trips = Inl ValueError \<and> (\<forall>out. cleaner trips \<noteq> Inr out)"
    by simp
qed

theorem parse_failure_raises_witness:
  "ex_trip\<lparr>arrival_time_string := Some ''2019-05-07 08:30:''\<rparr>
     \<in> set (table_rows
          (raw_table [ex_trip, ex_trip\<lparr>arrival_time_string := Some ''2019-05-07 08:30:''\<rparr>]))
   \<and> arrival_time_string (ex_trip\<lparr>arrival_time_string := Some ''2019-05-07 08:30:''\<rparr>)
       = Some ''2019-05-07 08:30:''
   \<and> depart_time_string (ex_trip\<lparr>arrival_time_string := Some ''2019-05-07 08:30:''\<rparr>)
       = Some ''Date: 2019-05-07 08:00:00.0000000''
   \<and> strptime (butlast ''2019-05-07 08:30:'') = None
   \<and> cleaner (raw_table [ex_trip, ex_trip\<lparr>arrival_time_string := Some ''2019-05-07 08:30:''\<rparr>])
       = Inl ValueError"
  using parse_failure_raises
    [of "ex_trip\<lparr>arrival_time_string := Some ''2019-05-07 08:30:''\<rparr>"
        "raw_table [ex_trip, ex_trip\<lparr>arrival_time_string := Some ''2019-05-07 08:30:''\<rparr>]"
        "''2019-05-07 08:30:''" "''Date: 2019-05-07 08:00:00.0000000''"]
  by (simp add: raw_table_def ex_trip_def strptime_no_format)

theorem parse_failure_excludes_row_counterexample:
  "cleaner (raw_table [ex_trip]) =
     Inr \<lparr>has_travel_time_calc = True, table_rows = [ex_trip\<lparr>travel_time_calc := Some 30\<rparr>]\<rparr>
   \<and> strptime (butlast ''2019-05-07 08:30:'') = None
   \<and> cleaner (raw_table [ex_trip, ex_trip\<lparr>arrival_time_string := Some ''2019-05-07 08:30:''\<rparr>])
       = Inl ValueError"
  by (simp add: cleaner_raw_eval dropna_def recompute_rows_Cons travel_time_30
      travel_time_no_format filter_dataset_def strptime_no_format ex_trip_def)

text \<open>
  C5, as the code has it: the drop of the missing timestamps removes exactly the rows
  that miss the departure string or the arrival string, one of them being enough; a row
  is kept exactly when it has both, and the kept rows stay in their order.
\<close>

theorem dropna_any_missing:
  "(r \<in> set (dropna trips) \<longleftrightarrow>
      r \<in> set trips \<and> depart_time_string r \<noteq> None \<and> arrival_time_string r \<noteq> None)
   \<and> dropna trips = filter (\<lambda>row. row \<in> set (dropna trips)) trips"
proof
  show "r \<in> set (dropna trips) \<longleftrightarrow>
      r \<in> set trips \<and> depart_time_string r \<noteq> None \<and> arrival_time_string r \<noteq> None"
    by (rule dropna_set)
  show "dropna trips = filter (\<lambda>row. row \<in> set (dropna trips)) trips"
    unfolding dropna_def by (rule filter_cong) auto
qed

theorem dropna_any_missing_witness:
  "dropna [ex_trip, ex_trip\<lparr>depart_time_string := None\<rparr>,
           ex_trip\<lparr>arrival_time_string := None\<rparr>,
           ex_trip\<lparr>depart_time_string := None, arrival_time_string := None\<rparr>] = [ex_trip]"
  using dropna_any_missing
    [of ex_trip "[ex_trip, ex_trip\<lparr>depart_time_string := None\<rparr>,
           ex_trip\<lparr>arrival_time_string := None\<rparr>,
           ex_trip\<lparr>depart_time_string := None, arrival_time_string := None\<rparr>]"]
  by (simp add: dropna_def ex_trip_def)

theorem dropna_one_present_counterexample:
  "arrival_time_string (ex_trip\<lparr>depart_time_string := None\<rparr>)
     = Some ''Date: 2019-05-07 08:30:00.0000000''
   \<and> dropna [ex_trip\<lparr>depart_time_string := None\<rparr>] = []"
  by (simp add: dropna_def ex_trip_def)

text \<open>
  C9: the Cleaner is idempotent: applied to a table it has produced, the drop of the
  missing timestamps, the recomputation of the travel time and the plausibility filter
  give that table again.
\<close>

theorem cleaner_idempotent:
  assumes "cleaner trips = Inr out"
  shows "cleaner out = Inr out"
proof (rule cleaner_fixed)
  show "has_travel_time_calc out"
    using cleaner_Inr [OF assms] by blast
  show "\<forall>r\<in>set (table_rows out). recomputed r \<and> (\<exists>x. travel_time_calc r = Some x \<and> x < 120)
          \<and> daynum r \<in> {1, 2, 3, 4, 5}"
    using cleaner_rows [OF assms] by blast
qed

theorem cleaner_idempotent_witness:
  "cleaner (raw_table
      [ex_trip, ex_trip\<lparr>daynum := 6\<rparr>, ex_trip\<lparr>depart_time_string := None\<rparr>,
       ex_trip\<lparr>arrival_time_string := Some ''Date: 2019-05-07 11:00:00.0000000''\<rparr>])
     = Inr \<lparr>has_travel_time_calc = True, table_rows = [ex_trip\<lparr>travel_time_calc := Some 30\<rparr>]\<rparr>
   \<and> cleaner \<lparr>has_travel_time_calc = True, table_rows = [ex_trip\<lparr>travel_time_calc := Some 30\<rparr>]\<rparr>
     = Inr \<lparr>has_travel_time_calc = True, table_rows = [ex_trip\<lparr>travel_time_calc := Some 30\<rparr>]\<rparr>
   \<and> cleaner (raw_table [ex_trip\<lparr>daynum := 6\<rparr>])
     = Inr \<lparr>has_travel_time_calc = True, table_rows = []\<rparr>
   \<and> cleaner \<lparr>has_travel_time_calc = True, table_rows = ([] :: trip list)\<rparr>
     = Inr \<lparr>has_travel_time_calc = True, table_rows = []\<rparr>"
proof -
  have c: "cleaner (raw_table
      [ex_trip, ex_trip\<lparr>daynum := 6\<rparr>, ex_trip\<lparr>depart_time_string := None\<rparr>,
       ex_trip\<lparr>arrival_time_string := Some ''Date: 2019-05-07 11:00:00.0000000''\<rparr>])
     = Inr \<lparr>has_travel_time_calc = True, table_rows = [ex_trip\<lparr>travel_time_calc := Some 30\<rparr>]\<rparr>"
    by (simp add: cleaner_raw_eval dropna_def recompute_rows_Cons travel_time_30
        travel_time_180 filter_dataset_def ex_trip_def)
  have e: "cleaner (raw_table [ex_trip\<lparr>daynum := 6\<rparr>])
     = Inr \<lparr>has_travel_time_calc = True, table_rows = []\<rparr>"
    by (simp add: cleaner_raw_eval dropna_def recompute_rows_Cons travel_time_30
        filter_dataset_def ex_trip_def)
  from c e cleaner_idempotent [OF c] cleaner_idempotent [OF e] show ?thesis by simp
qed

lemma age_differs:
  "a \<noteq> Some ''Under 5 years old'' \<or> a \<noteq> Some ''5-11 years''
     \<or> a \<noteq> Some ''12-15 years'' \<or> a \<noteq> Some ''16-17 years''"
  by (cases a) auto

text \<open>
  C10: the adult filter keeps every row: a value of the age column, missing or not,
  differs from at least one of the four age groups, so the disjunction holds for every
  row and the filtered table is the table itself; no trip of a child is removed.
\<close>

theorem adult_filter_keeps_all:
  "(age row \<noteq> Some ''Under 5 years old'' \<or> age row \<noteq> Some ''5-11 years''
      \<or> age row \<noteq> Some ''12-15 years'' \<or> age row \<noteq> Some ''16-17 years'')
   \<and> trips_clean_adults trips_clean = trips_clean"
  unfolding trips_clean_adults_def
  by (intro conjI filter_True ballI) (rule age_differs)+

theorem adult_filter_keeps_all_witness:
  "trips_clean_adults
     [ex_trip, ex_trip\<lparr>age := Some ''Under 5 years old''\<rparr>, ex_trip\<lparr>age := Some ''35-44 years''\<rparr>,
      ex_trip\<lparr>age := None\<rparr>]
   = [ex_trip, ex_trip\<lparr>age := Some ''Under 5 years old''\<rparr>, ex_trip\<lparr>age := Some ''35-44 years''\<rparr>,
      ex_trip\<lparr>age := None\<rparr>]
   \<and> age ex_trip = Some ''5-11 years''"
  using adult_filter_keeps_all
    [of ex_trip "[ex_trip, ex_trip\<lparr>age := Some ''Under 5 years old''\<rparr>,
       ex_trip\<lparr>age := Some ''35-44 years''\<rparr>, ex_trip\<lparr>age := None\<rparr>]"]
  by (simp add: ex_trip_def)

section \<open>Properties of the radius of gyration\<close>

lemma set_set_add [simp]: "set (set_add is_nan x s) = insert x (set s)"
  by (auto simp: set_add_def)

lemma distinct_set_add: "distinct s \<Longrightarrow> \<not> is_nan x \<Longrightarrow> distinct (set_add is_nan x s)"
  by (simp add: set_add_def)

lemma unique_loop_sets:
  "unique_loop rows (a, b, c) = (a', b', c') \<Longrightarrow>
     set a' = set a \<union> (\<Union>t\<in>set rows. row_lats t)
   \<and> set b' = set b \<union> (\<Union>t\<in>set rows. row_lngs t)
   \<and> set c' = set c \<union> (\<Union>t\<in>set rows. row_pts t)"
proof (induction rows arbitrary: a b c)
  case Nil
  then show ?case by simp
next
  case (Cons row rows)
  obtain a1 b1 c1 where st: "unique_step row (a, b, c) = (a1, b1, c1)"
    by (cases "unique_step row (a, b, c)")
  then have s1: "set a1 = set a \<union> row_lats row" "set b1 = set b \<union> row_lngs row"
    "set c1 = set c \<union> row_pts row"
    by (auto simp: unique_step_def Let_def row_lats_def row_lngs_def row_pts_def)
  from Cons.prems st have "unique_loop rows (a1, b1, c1) = (a', b', c')" by simp
  from Cons.IH [OF this] s1 show ?case by auto
qed

lemma unique_loop_distinct:
  "unique_loop rows (a, b, c) = (a', b', c') \<Longrightarrow> coordinates_present rows \<Longrightarrow>
     distinct a \<Longrightarrow> distinct b \<Longrightarrow> distinct c \<Longrightarrow> distinct a' \<and> distinct b' \<and> distinct c'"
proof (induction rows arbitrary: a b c)
  case Nil
  then show ?case by simp
next
  case (Cons row rows)
  obtain a1 b1 c1 where st: "unique_step row (a, b, c) = (a1, b1, c1)"
    by (cases "unique_step row (a, b, c)")
  from Cons.prems(2) have pr: "origin_lat row \<noteq> None" "origin_lng row \<noteq> None"
    "dest_lat row \<noteq> None" "dest_lng row \<noteq> None" and rest: "coordinates_present rows"
    by (simp_all add: coordinates_present_def)
  from st pr Cons.prems(3-5) have d1: "distinct a1" "distinct b1" "distinct c1"
    by (auto simp: unique_step_def Let_def round3_def float_nan_def point_nan_def
        intro!: distinct_set_add)
  from Cons.prems(1) st have "unique_loop rows (a1, b1, c1) = (a', b', c')" by simp
  from Cons.IH [OF this rest d1] show ?case .
qed

lemma distances_None:
  "distances geo ps c = None \<longleftrightarrow> (\<exists>p\<in>set ps. geodesic_miles geo p c = None)"
  by (induction ps) (auto split: option.splits)

lemma distances_Some:
  "distances geo ps c = Some ds \<Longrightarrow> ds = map (\<lambda>p. the (geodesic_miles geo p c)) ps"
  by (induction ps arbitrary: ds) (auto split: option.splits)

lemma foldl_index_sum:
  fixes d :: "real list"
  shows "n \<le> length d \<Longrightarrow>
   foldl (\<lambda>sum_di i. sum_di + (d ! i)\<^sup>2) a [0..<n] = a + sum_list (map (\<lambda>x. x\<^sup>2) (take n d))"
proof (induction n)
  case 0
  show ?case by simp
next
  case (Suc n)
  then have "take (Suc n) d = take n d @ [d ! n]"
    by (simp add: take_Suc_conv_app_nth)
  with Suc show ?case by simp
qed

lemma rog_value:
  "distances geo ps (snd c, fst c) = Some ds \<Longrightarrow> ps \<noteq> [] \<Longrightarrow>
   rog geo ps c = Inr (sqrt (sum_list (map (\<lambda>x. x\<^sup>2) ds) / real (length ds)))"
  using distances_Some [of geo ps "(snd c, fst c)" ds] foldl_index_sum [of "length ds" ds 0]
  by (simp add: rog_def Let_def)

lemma rog_nonneg:
  assumes "rog geo ps c = Inr r"
  shows "0 \<le> r"
proof -
  from assms obtain ds where ds: "distances geo ps (snd c, fst c) = Some ds" and ne: "ds \<noteq> []"
    and r: "r = sqrt (foldl (\<lambda>sum_di i. sum_di + (ds ! i)\<^sup>2) 0 [0..<length ds] / real (length ds))"
    by (auto simp: rog_def Let_def split: option.splits if_splits)
  have "0 \<le> sum_list (map (\<lambda>x. x\<^sup>2) ds)"
    by (rule sum_list_nonneg) auto
  then have "0 \<le> foldl (\<lambda>sum_di i. sum_di + (ds ! i)\<^sup>2) 0 [0..<length ds]"
    using foldl_index_sum [of "length ds" ds 0] by simp
  then show ?thesis unfolding r by simp
qed

lemma geodesic_miles_nan: "fst p = None \<or> snd p = None \<Longrightarrow> geodesic_miles geo p c = None"
  by (cases p) (auto simp: geodesic_miles_def split: option.splits)

lemma geodesic_miles_lift [simp]:
  "geodesic_miles geo (lift_point p) (Some clat, Some clng) = geo p (clat, clng)"
  by (cases p) (simp add: geodesic_miles_def lift_point_def)

lemma inj_lift_point: "inj_on lift_point A"
  by (auto simp: inj_on_def lift_point_def prod_eq_iff)

lemma np_mean_set:
  assumes "distinct xs" and "set xs = Some ` S" and "xs \<noteq> []"
  shows "np_mean xs = Some (set_mean S)"
proof -
  have nn: "None \<notin> set xs" using assms(2) by auto
  have "sum_list (map the xs) = sum the (set xs)"
    using assms(1) by (simp add: sum_list_distinct_conv_sum_set)
  also have "\<dots> = sum (the \<circ> Some) S"
    unfolding assms(2) by (rule sum.reindex) simp
  also have "\<dots> = (\<Sum>x\<in>S. x)" by simp
  finally have s: "sum_list (map the xs) = (\<Sum>x\<in>S. x)" .
  have "length xs = card (set xs)" using assms(1) by (simp add: distinct_card)
  also have "\<dots> = card S" unfolding assms(2) by (rule card_image) simp
  finally have l: "length xs = card S" .
  show ?thesis using nn assms(3) s l by (simp add: np_mean_def set_mean_def)
qed

lemma present_row_sets:
  assumes "coordinates_present rows"
  shows "(\<Union>t\<in>set rows. row_pts t) = lift_point ` visited_points rows"
    and "(\<Union>t\<in>set rows. row_lats t) = Some ` fst ` visited_points rows"
    and "(\<Union>t\<in>set rows. row_lngs t) = Some ` snd ` visited_points rows"
proof -
  have r: "\<And>t. t \<in> set rows \<Longrightarrow>
      round3 (origin_lat t) = Some (round_float (the (origin_lat t)))
    \<and> round3 (origin_lng t) = Some (round_float (the (origin_lng t)))
    \<and> round3 (dest_lat t) = Some (round_float (the (dest_lat t)))
    \<and> round3 (dest_lng t) = Some (round_float (the (dest_lng t)))"
    using assms by (auto simp: coordinates_present_def round3_def)
  show "(\<Union>t\<in>set rows. row_pts t) = lift_point ` visited_points rows"
    using r by (auto simp: row_pts_def visited_points_def lift_point_def image_iff)
  show "(\<Union>t\<in>set rows. row_lats t) = Some ` fst ` visited_points rows"
    using r by (auto simp: row_lats_def visited_points_def image_iff)
  show "(\<Union>t\<in>set rows. row_lngs t) = Some ` snd ` visited_points rows"
    using r by (auto simp: row_lngs_def visited_points_def image_iff)
qed

lemma rog_absent_nan:
  assumes "p \<in> set upts" and "fst p = None \<or> snd p = None"
  shows "rog geo upts c = Inl ValueError"
proof -
  have "geodesic_miles geo p (snd c, fst c) = None"
    using assms(2) by (rule geodesic_miles_nan)
  with assms(1) have "distances geo upts (snd c, fst c) = None"
    by (auto simp: distances_None)
  then show ?thesis by (simp add: rog_def)
qed

lemma rog_present:
  assumes d: "distinct upts" and s: "set upts = lift_point ` P" and ne: "upts \<noteq> []"
  shows "rog geo upts (Some clng, Some clat) =
     (if \<forall>p\<in>P. geo p (clat, clng) \<noteq> None
      then Inr (sqrt ((\<Sum>p\<in>P. (the (geo p (clat, clng)))\<^sup>2) / real (card P)))
      else Inl ValueError)"
proof (cases "\<forall>p\<in>P. geo p (clat, clng) \<noteq> None")
  case False
  then obtain p where "p \<in> P" "geo p (clat, clng) = None" by blast
  then have "lift_point p \<in> set upts" "geodesic_miles geo (lift_point p) (Some clat, Some clng) = None"
    using s by simp_all
  then have "\<exists>q\<in>set upts. geodesic_miles geo q (Some clat, Some clng) = None"
    by (rule bexI [rotated])
  then have "distances geo upts (Some clat, Some clng) = None"
    by (simp only: distances_None)
  with False show ?thesis by (simp add: rog_def)
next
  case True
  have "\<forall>q\<in>set upts. geodesic_miles geo q (Some clat, Some clng) \<noteq> None"
    using True s by auto
  then have "distances geo upts (Some clat, Some clng) \<noteq> None"
    by (simp add: distances_None)
  then obtain ds where ds: "distances geo upts (Some clat, Some clng) = Some ds" by blast
  have dsm: "ds = map (\<lambda>q. the (geodesic_miles geo q (Some clat, Some clng))) upts"
    using ds by (rule distances_Some)
  have "sum_list (map (\<lambda>x. x\<^sup>2) ds)
      = sum_list (map (\<lambda>q. (the (geodesic_miles geo q (Some clat, Some clng)))\<^sup>2) upts)"
    by (simp add: dsm comp_def)
  also have "\<dots> = (\<Sum>q\<in>set upts. (the (geodesic_miles geo q (Some clat, Some clng)))\<^sup>2)"
    using d by (simp add: sum_list_distinct_conv_sum_set)
  also have "\<dots> = (\<Sum>p\<in>P. (the (geodesic_miles geo (lift_point p) (Some clat, Some clng)))\<^sup>2)"
    unfolding s by (simp add: sum.reindex [OF inj_lift_point])
  also have "\<dots> = (\<Sum>p\<in>P. (the (geo p (clat, clng)))\<^sup>2)" by simp
  finally have sm: "sum_list (map (\<lambda>x. x\<^sup>2) ds) = (\<Sum>p\<in>P. (the (geo p (clat, clng)))\<^sup>2)" .
  have "length ds = length upts" by (simp add: dsm)
  also have "\<dots> = card (set upts)" using d by (simp add: distinct_card)
  also have "\<dots> = card P" unfolding s by (rule card_image) (rule inj_lift_point)
  finally have ln: "length ds = card P" .
  have "rog geo upts (Some clng, Some clat)
      = Inr (sqrt (sum_list (map (\<lambda>x. x\<^sup>2) ds) / real (length ds)))"
    using ds ne by (intro rog_value) simp_all
  with True sm ln show ?thesis by simp
qed

lemma rog_centroid_df_eq:
  assumes ne: "person_trips_df trips_od row \<noteq> []"
  shows "rog_centroid_df geo trips_od row =
     (if coordinates_present (person_trips_df trips_od row)
         \<and> distances_defined geo (visited_points (person_trips_df trips_od row))
      then Some (spec_rog geo (visited_points (person_trips_df trips_od row))) else None)"
proof -
  define rows where "rows = person_trips_df trips_od row"
  define P where "P = visited_points rows"
  obtain ulat ulng upts where ul: "unique_loop rows ([], [], []) = (ulat, ulng, upts)"
    by (cases "unique_loop rows ([], [], [])")
  have res: "rog_centroid_df geo trips_od row =
      (case rog geo upts (np_mean ulng, np_mean ulat) of Inl e \<Rightarrow> None | Inr v \<Rightarrow> Some v)"
    using ul by (simp add: rog_centroid_df_def rows_def Let_def)
  from unique_loop_sets [OF ul]
  have sets: "set ulat = (\<Union>t\<in>set rows. row_lats t)" "set ulng = (\<Union>t\<in>set rows. row_lngs t)"
    "set upts = (\<Union>t\<in>set rows. row_pts t)" by simp_all
  from ne obtain t where t: "t \<in> set rows" by (cases rows) (auto simp: rows_def)
  have nonempty: "ulat \<noteq> []" "ulng \<noteq> []" "upts \<noteq> []"
    using sets t by (auto simp: row_lats_def row_lngs_def row_pts_def)
  show ?thesis
  proof (cases "coordinates_present rows")
    case False
    then obtain u where u: "u \<in> set rows"
      "origin_lat u = None \<or> origin_lng u = None \<or> dest_lat u = None \<or> dest_lng u = None"
      by (auto simp: coordinates_present_def)
    then have "\<exists>p\<in>row_pts u. fst p = None \<or> snd p = None"
      by (auto simp: row_pts_def round3_def)
    then obtain p where "p \<in> set upts" "fst p = None \<or> snd p = None"
      using sets(3) u(1) by blast
    then have "rog geo upts (np_mean ulng, np_mean ulat) = Inl ValueError"
      by (rule rog_absent_nan)
    with res False show ?thesis by (simp add: rows_def)
  next
    case True
    from unique_loop_distinct [OF ul True]
    have dist: "distinct ulat" "distinct ulng" "distinct upts" by simp_all
    have s3: "set upts = lift_point ` P" "set ulat = Some ` fst ` P" "set ulng = Some ` snd ` P"
      using present_row_sets [OF True] sets by (simp_all add: P_def)
    have mlat: "np_mean ulat = Some (set_mean (fst ` P))"
      using dist(1) s3(2) nonempty(1) by (rule np_mean_set)
    have mlng: "np_mean ulng = Some (set_mean (snd ` P))"
      using dist(2) s3(3) nonempty(2) by (rule np_mean_set)
    have "rog geo upts (np_mean ulng, np_mean ulat) =
        (if \<forall>p\<in>P. geo p (set_mean (fst ` P), set_mean (snd ` P)) \<noteq> None
         then Inr (sqrt ((\<Sum>p\<in>P. (the (geo p (set_mean (fst ` P), set_mean (snd ` P))))\<^sup>2) / real (card P)))
         else Inl ValueError)"
      unfolding mlat mlng using dist(3) s3(1) nonempty(3) by (rule rog_present)
    with res True show ?thesis
      by (simp add: rows_def [symmetric] P_def [symmetric] distances_defined_def spec_rog_def
          spec_centroid_def)
  qed
qed

lemma rog_centroid_df_no_trips:
  "person_trips_df trips_od row = [] \<Longrightarrow> rog_centroid_df geo trips_od row = None"
  by (simp add: rog_centroid_df_def rog_def)

lemma rog_centroid_df_missing_coordinate:
  assumes "t \<in> set (person_trips_df trips_od row)"
    and "origin_lat t = None \<or> origin_lng t = None \<or> dest_lat t = None \<or> dest_lng t = None"
  shows "rog_centroid_df geo trips_od row = None"
proof -
  from assms have "\<not> coordinates_present (person_trips_df trips_od row)"
    by (auto simp: coordinates_present_def)
  moreover from assms(1) have "person_trips_df trips_od row \<noteq> []" by auto
  ultimately show ?thesis by (simp add: rog_centroid_df_eq)
qed

lemma rog_centroid_df_nonneg:
  assumes "rog_centroid_df geo trips_od row = Some r"
  shows "0 \<le> r"
proof -
  from assms obtain upts c where "rog geo upts c = Inr r"
    by (auto simp: rog_centroid_df_def Let_def split: prod.splits sum.splits)
  then show ?thesis by (rule rog_nonneg)
qed

subsection \<open>The example table\<close>

lemma round_float_ex:
  "round_float 47 = 47" "round_float 49 = 49" "round_float (- 120) = - 120"
  "round_float (- 124) = - 124" "round_float (470003 / 10000) = 47"
  "round_float (- (1240003 / 10000)) = - 124"
  by (simp_all add: round_float_def round_half_even_def Let_def)

lemma person_trips_df_ex: "person_trips_df ex_trips_od ex_person = ex_trips_od"
  by (simp add: person_trips_df_def ex_trips_od_def ex_trip_od_def ex_person_def)

lemma coordinates_present_ex: "coordinates_present ex_trips_od"
  by (simp add: coordinates_present_def ex_trips_od_def ex_trip_od_def del: not_None_eq)

lemma visited_points_ex:
  "visited_points ex_trips_od = {(47, - 120), (47, - 124), (49, - 124)}"
  by (auto simp: visited_points_def ex_trips_od_def ex_trip_od_def round_float_ex)

lemma spec_centroid_ex: "spec_centroid {(47, - 120), (47, - 124), (49, - 124)} = (48, - 122)"
  by (simp add: spec_centroid_def set_mean_def)

lemma distances_defined_taxicab: "distances_defined taxicab P"
  by (simp add: distances_defined_def taxicab_def)

lemma spec_rog_ex: "spec_rog taxicab {(47, - 120), (47, - 124), (49, - 124)} = 3"
proof -
  have "sqrt 9 = 3"
    using real_sqrt_abs [of 3] by simp
  then show ?thesis
    by (simp add: spec_rog_def spec_centroid_ex taxicab_def)
qed

lemma ex_trips_od_not_Nil: "ex_trips_od \<noteq> []"
  by (simp add: ex_trips_od_def)

lemma rog_centroid_df_ex: "rog_centroid_df taxicab ex_trips_od ex_person = Some 3"
  using rog_centroid_df_eq [of ex_trips_od ex_person taxicab]
  by (simp add: person_trips_df_ex coordinates_present_ex distances_defined_taxicab
      visited_points_ex spec_rog_ex ex_trips_od_not_Nil)

lemma rog_centroid_df_ex_one_trip: "rog_centroid_df taxicab [ex_trip_od] ex_person = Some 2"
proof -
  have p: "person_trips_df [ex_trip_od] ex_person = [ex_trip_od]"
    by (simp add: person_trips_df_def ex_trip_od_def ex_person_def)
  have c: "coordinates_present [ex_trip_od]"
    by (simp add: coordinates_present_def ex_trip_od_def)
  have v: "visited_points [ex_trip_od] = {(47, - 120), (47, - 124)}"
    by (simp add: visited_points_def ex_trip_od_def round_float_ex)
  have m: "spec_centroid {(47, - 120), (47, - 124)} = (47, - 122)"
    by (simp add: spec_centroid_def set_mean_def)
  have "spec_rog taxicab {(47, - 120), (47, - 124)} = 2"
    by (simp add: spec_rog_def m taxicab_def)
  then show ?thesis
    using rog_centroid_df_eq [of "[ex_trip_od]" ex_person taxicab]
    by (simp add: p c v distances_defined_taxicab)
qed

lemma rog_centroid_df_ex_single:
  "rog_centroid_df taxicab [ex_trip_od\<lparr>dest_lng := Some (- 120)\<rparr>] ex_person = Some 0"
proof -
  have p: "person_trips_df [ex_trip_od\<lparr>dest_lng := Some (- 120)\<rparr>] ex_person
      = [ex_trip_od\<lparr>dest_lng := Some (- 120)\<rparr>]"
    by (simp add: person_trips_df_def ex_trip_od_def ex_person_def)
  have c: "coordinates_present [ex_trip_od\<lparr>dest_lng := Some (- 120)\<rparr>]"
    by (simp add: coordinates_present_def ex_trip_od_def)
  have v: "visited_points [ex_trip_od\<lparr>dest_lng := Some (- 120)\<rparr>] = {(47, - 120)}"
    by (simp add: visited_points_def ex_trip_od_def round_float_ex)
  have "spec_rog taxicab {(47, - 120)} = 0"
    by (simp add: spec_rog_def spec_centroid_def set_mean_def taxicab_def)
  then show ?thesis
    using rog_centroid_df_eq [of "[ex_trip_od\<lparr>dest_lng := Some (- 120)\<rparr>]" ex_person taxicab]
    by (simp add: p c v distances_defined_taxicab)
qed

lemma rog_centroid_df_ex_unlocated:
  "rog_centroid_df geo (trips @ [ex_unlocated]) ex_person = None"
proof (rule rog_centroid_df_missing_coordinate)
  show "ex_unlocated \<in> set (person_trips_df (trips @ [ex_unlocated]) ex_person)"
    by (simp add: person_trips_df_def ex_unlocated_def ex_trip_od_def ex_person_def)
  show "origin_lat ex_unlocated = None \<or> origin_lng ex_unlocated = None
      \<or> dest_lat ex_unlocated = None \<or> dest_lng ex_unlocated = None"
    by (simp add: ex_unlocated_def)
qed

subsection \<open>The claims about the radius of gyration\<close>

text \<open>
  C6, as the code has it: for a person with at least one trip, all of whose trips carry
  their four coordinates and for each of whose unique points the library gives a distance
  to the centroid, the radius of gyration is the square root of the mean of the squared
  distances in miles from each unique point to the centroid, the latitude of the centroid
  being the mean of the set of the rounded latitudes and its longitude the mean of the set
  of the rounded longitudes, each value counted once; coordinates are rounded to 3 decimal
  places before they are compared. Where one of the person's trips lacks a coordinate, as
  a trip without location in the left merge does, or the library gives no distance for one
  of the points, the value is missing, whatever other points the person has.
\<close>

theorem rog_root_mean_square:
  assumes "person_trips_df trips_od row \<noteq> []"
  shows "rog_centroid_df geo trips_od row =
     (if coordinates_present (person_trips_df trips_od row)
         \<and> distances_defined geo (visited_points (person_trips_df trips_od row))
      then Some (spec_rog geo (visited_points (person_trips_df trips_od row))) else None)"
  using assms by (rule rog_centroid_df_eq)

theorem rog_root_mean_square_witness:
  "person_trips_df ex_trips_od ex_person \<noteq> []
   \<and> visited_points (person_trips_df ex_trips_od ex_person) = {(47, - 120), (47, - 124), (49, - 124)}
   \<and> spec_centroid {(47, - 120), (47, - 124), (49, - 124)} = (48, - 122)
   \<and> rog_centroid_df taxicab ex_trips_od ex_person = Some 3"
  using rog_root_mean_square [of ex_trips_od ex_person taxicab]
  by (simp add: person_trips_df_ex coordinates_present_ex distances_defined_taxicab
      visited_points_ex spec_rog_ex spec_centroid_ex ex_trips_od_not_Nil)

theorem rog_unlocated_trip_counterexample:
  "origin_lat ex_trip_od = Some 47 \<and> origin_lng ex_trip_od = Some (- 120)
   \<and> person_dim_id ex_trip_od = person_id ex_person
   \<and> person_dim_id ex_unlocated = person_id ex_person
   \<and> rog_centroid_df taxicab [ex_trip_od] ex_person = Some 2
   \<and> rog_centroid_df taxicab [ex_trip_od, ex_unlocated] ex_person = None"
proof -
  have f: "origin_lat ex_trip_od = Some 47 \<and> origin_lng ex_trip_od = Some (- 120)
      \<and> person_dim_id ex_trip_od = person_id ex_person
      \<and> person_dim_id ex_unlocated = person_id ex_person"
    by (simp add: ex_trip_od_def ex_unlocated_def ex_person_def)
  have n: "rog_centroid_df taxicab [ex_trip_od, ex_unlocated] ex_person = None"
    using rog_centroid_df_ex_unlocated [of taxicab "[ex_trip_od]"] by simp
  from f n rog_centroid_df_ex_one_trip show ?thesis by simp
qed

text \<open>
  C7, as the code has it: the radius of gyration is missing, and not zero, for a person
  without a valid coordinate pair, each end of each trip lacking a coordinate, and also
  for any person one of whose trips lacks a coordinate; for a person all of whose trips
  carry their four coordinates and give exactly one rounded point the value is 0, the
  distance of a point to itself being 0; and a value that is defined is never negative.
\<close>

theorem rog_missing_zero_nonneg:
  "((\<forall>t\<in>set (person_trips_df trips_od row).
        (origin_lat t = None \<or> origin_lng t = None) \<and> (dest_lat t = None \<or> dest_lng t = None))
      \<longrightarrow> rog_centroid_df geo trips_od row = None)
   \<and> ((\<exists>t\<in>set (person_trips_df trips_od row).
        origin_lat t = None \<or> origin_lng t = None \<or> dest_lat t = None \<or> dest_lng t = None)
      \<longrightarrow> rog_centroid_df geo trips_od row = None)
   \<and> (coordinates_present (person_trips_df trips_od row)
        \<and> visited_points (person_trips_df trips_od row) = {p} \<and> geo p p = Some 0
      \<longrightarrow> rog_centroid_df geo trips_od row = Some 0)
   \<and> (rog_centroid_df geo trips_od row = Some r \<longrightarrow> 0 \<le> r)"
proof (intro conjI impI)
  assume a: "\<forall>t\<in>set (person_trips_df trips_od row).
        (origin_lat t = None \<or> origin_lng t = None) \<and> (dest_lat t = None \<or> dest_lng t = None)"
  show "rog_centroid_df geo trips_od row = None"
  proof (cases "person_trips_df trips_od row")
    case Nil
    then show ?thesis by (rule rog_centroid_df_no_trips)
  next
    case (Cons t ts)
    then have "t \<in> set (person_trips_df trips_od row)" by simp
    moreover from this a have
      "origin_lat t = None \<or> origin_lng t = None \<or> dest_lat t = None \<or> dest_lng t = None"
      by blast
    ultimately show ?thesis by (rule rog_centroid_df_missing_coordinate)
  qed
next
  assume "\<exists>t\<in>set (person_trips_df trips_od row).
        origin_lat t = None \<or> origin_lng t = None \<or> dest_lat t = None \<or> dest_lng t = None"
  then show "rog_centroid_df geo trips_od row = None"
    using rog_centroid_df_missing_coordinate by blast
next
  assume b: "coordinates_present (person_trips_df trips_od row)
        \<and> visited_points (person_trips_df trips_od row) = {p} \<and> geo p p = Some 0"
  then have "person_trips_df trips_od row \<noteq> []"
    by (auto simp: visited_points_def)
  moreover have "spec_centroid {p} = p"
    by (simp add: spec_centroid_def set_mean_def)
  ultimately show "rog_centroid_df geo trips_od row = Some 0"
    using b by (simp add: rog_centroid_df_eq distances_defined_def spec_rog_def)
next
  assume "rog_centroid_df geo trips_od row = Some r"
  then show "0 \<le> r" by (rule rog_centroid_df_nonneg)
qed

theorem rog_missing_zero_nonneg_witness:
  "rog_centroid_df taxicab [] ex_person = None
   \<and> origin_lat (ex_trip_od\<lparr>origin_lat := None, dest_lng := None\<rparr>) = None
   \<and> dest_lng (ex_trip_od\<lparr>origin_lat := None, dest_lng := None\<rparr>) = None
   \<and> rog_centroid_df taxicab [ex_trip_od\<lparr>origin_lat := None, dest_lng := None\<rparr>] ex_person = None
   \<and> origin_lat ex_unlocated = None
   \<and> rog_centroid_df taxicab [ex_trip_od, ex_unlocated] ex_person = None
   \<and> visited_points (person_trips_df [ex_trip_od\<lparr>dest_lng := Some (- 120)\<rparr>] ex_person)
       = {(47, - 120)}
   \<and> taxicab (47, - 120) (47, - 120) = Some 0
   \<and> rog_centroid_df taxicab [ex_trip_od\<lparr>dest_lng := Some (- 120)\<rparr>] ex_person = Some 0
   \<and> rog_centroid_df taxicab ex_trips_od ex_person = Some 3
   \<and> (0::real) \<le> 3"
  using rog_missing_zero_nonneg [of "[]" ex_person taxicab "(47, - 120)" 3]
    rog_missing_zero_nonneg
      [of "[ex_trip_od\<lparr>origin_lat := None, dest_lng := None\<rparr>]" ex_person taxicab "(47, - 120)" 3]
    rog_missing_zero_nonneg [of "[ex_trip_od, ex_unlocated]" ex_person taxicab "(47, - 120)" 3]
    rog_missing_zero_nonneg
      [of "[ex_trip_od\<lparr>dest_lng := Some (- 120)\<rparr>]" ex_person taxicab "(47, - 120)" 3]
    rog_missing_zero_nonneg [of ex_trips_od ex_person taxicab "(47, - 120)" 3]
  by (simp add: person_trips_df_def ex_person_def ex_trip_od_def ex_unlocated_def
      coordinates_present_def visited_points_def round_float_ex taxicab_def
      rog_centroid_df_ex [unfolded ex_person_def])

theorem rog_single_point_unlocated_counterexample:
  "visited_points [ex_trip_od\<lparr>dest_lng := Some (- 120)\<rparr>] = {(47, - 120)}
   \<and> person_dim_id (ex_trip_od\<lparr>dest_lng := Some (- 120)\<rparr>) = person_id ex_person
   \<and> person_dim_id ex_unlocated = person_id ex_person
   \<and> rog_centroid_df taxicab [ex_trip_od\<lparr>dest_lng := Some (- 120)\<rparr>] ex_person = Some 0
   \<and> rog_centroid_df taxicab [ex_trip_od\<lparr>dest_lng := Some (- 120)\<rparr>, ex_unlocated] ex_person
       = None"
proof -
  have f: "visited_points [ex_trip_od\<lparr>dest_lng := Some (- 120)\<rparr>] = {(47, - 120)}
      \<and> person_dim_id (ex_trip_od\<lparr>dest_lng := Some (- 120)\<rparr>) = person_id ex_person
      \<and> person_dim_id ex_unlocated = person_id ex_person"
    by (simp add: visited_points_def round_float_ex ex_trip_od_def ex_unlocated_def ex_person_def)
  have n: "rog_centroid_df taxicab [ex_trip_od\<lparr>dest_lng := Some (- 120)\<rparr>, ex_unlocated] ex_person
      = None"
    using rog_centroid_df_ex_unlocated [of taxicab "[ex_trip_od\<lparr>dest_lng := Some (- 120)\<rparr>]"]
    by simp
  from f n rog_centroid_df_ex_single show ?thesis by simp
qed

end
